theory Spec2Isabelle
  imports Main
begin

section \<open>Data model (the schema module: tables listings, payments, phone_unlocks)\<close>

text \<open>
  Each table row is a record. Field names carry a one-letter prefix of their table
  (\<open>l_\<close>, \<open>p_\<close>, \<open>u_\<close>) because the three tables share the column names
  \<open>id\<close>, \<open>status\<close>, \<open>listingId\<close>, \<open>paymentStatus\<close> and \<open>createdAt\<close>, and
  \<open>id\<close> is a constant of HOL. The columns \<open>status\<close>, \<open>paymentStatus\<close> and
  \<open>type\<close> are declared \<open>text\<close> in the schema, so they are strings here, not
  enumerations. \<open>timestamp\<close> values are natural numbers, \<open>integer\<close> values are
  integers (the store checks the 32-bit range when a row is inserted), a nullable
  column is an option. A string is the list of the bytes of its UTF-8 encoding.
\<close>

record Listing =
  l_id :: string
  l_city :: string
  l_commune :: string
  l_neighborhood :: string
  l_rooms :: int
  l_propertyType :: string
  l_transactionType :: string
  l_price :: int
  l_deposit :: "int option"
  l_description :: string
  l_phone :: string
  l_images :: "string list"
  l_status :: string
  l_paymentStatus :: string
  l_featured :: bool
  l_createdAt :: nat

record Payment =
  p_id :: string
  p_listingId :: "string option"
  p_type :: string
  p_amount :: int
  p_status :: string
  p_createdAt :: nat

record PhoneUnlock =
  u_id :: string
  u_listingId :: string
  u_paymentStatus :: string
  u_createdAt :: nat

text \<open>The insert types: the row types without the columns the schema omits.\<close>

record InsertListing =
  il_city :: string
  il_commune :: string
  il_neighborhood :: string
  il_rooms :: int
  il_propertyType :: string
  il_transactionType :: string
  il_price :: int
  il_deposit :: "int option"
  il_description :: string
  il_phone :: string
  il_images :: "string list"

record InsertPayment =
  ip_listingId :: "string option"
  ip_type :: string
  ip_amount :: int

record InsertPhoneUnlock =
  iu_listingId :: string

text \<open>
  The relational store: one list of rows per table, in insertion order. Every storage
  method reads the store and returns the store it leaves behind.
\<close>

record database =
  listings :: "Listing list"
  payments :: "Payment list"
  phoneUnlocks :: "PhoneUnlock list"

text \<open>
  The column defaults \<open>gen_random_uuid()\<close> and \<open>now()\<close> are computed by the store;
  the values they produce for one insert are an argument of the insert.
\<close>

record generated =
  gen_random_uuid :: string
  now :: nat

text \<open>
  What makes a statement throw: the constraints the schema declares, and a value that
  the type of its column cannot hold.
\<close>

datatype storeError =
    UniqueViolation
  | ForeignKeyViolation
  | NumericValueOutOfRange
  | InvalidByteSequence

definition int4 :: "int \<Rightarrow> bool" where
  "int4 n \<longleftrightarrow> - 2147483648 \<le> n \<and> n \<le> 2147483647"

definition int4_opt :: "int option \<Rightarrow> bool" where
  "int4_opt v = (case v of None \<Rightarrow> True | Some n \<Rightarrow> int4 n)"

text \<open>
  What a \<open>text\<close> column holds: well-formed UTF-8 (no overlong form, no surrogate,
  nothing beyond U+10FFFF) without the character U+0000. The store refuses any other
  value with the error \<open>InvalidByteSequence\<close>.
\<close>

definition continuation :: "nat \<Rightarrow> bool" where
  "continuation b \<longleftrightarrow> 0x80 \<le> b \<and> b \<le> 0xBF"

definition second_of_three :: "nat \<Rightarrow> nat \<Rightarrow> bool" where
  "second_of_three a b \<longleftrightarrow>
     (if a = 0xE0 then 0xA0 \<le> b \<and> b \<le> 0xBF
      else if a = 0xED then 0x80 \<le> b \<and> b \<le> 0x9F
      else continuation b)"

definition second_of_four :: "nat \<Rightarrow> nat \<Rightarrow> bool" where
  "second_of_four a b \<longleftrightarrow>
     (if a = 0xF0 then 0x90 \<le> b \<and> b \<le> 0xBF
      else if a = 0xF4 then 0x80 \<le> b \<and> b \<le> 0x8F
      else continuation b)"

fun utf8 :: "nat list \<Rightarrow> bool" where
  "utf8 [] = True"
| "utf8 (a # bs) =
     (if a < 0x80 then utf8 bs
      else if 0xC2 \<le> a \<and> a \<le> 0xDF then
        (case bs of b # cs \<Rightarrow> continuation b \<and> utf8 cs | _ \<Rightarrow> False)
      else if 0xE0 \<le> a \<and> a \<le> 0xEF then
        (case bs of
           b # c # ds \<Rightarrow> second_of_three a b \<and> continuation c \<and> utf8 ds
         | _ \<Rightarrow> False)
      else if 0xF0 \<le> a \<and> a \<le> 0xF4 then
        (case bs of
           b # c # d # es \<Rightarrow>
             second_of_four a b \<and> continuation c \<and> continuation d \<and> utf8 es
         | _ \<Rightarrow> False)
      else False)"

definition pg_text :: "string \<Rightarrow> bool" where
  "pg_text s \<longleftrightarrow> CHR 0x00 \<notin> set s \<and> utf8 (map of_char s)"

definition text_error :: "string \<Rightarrow> storeError list" where
  "text_error s = (if pg_text s then [] else [InvalidByteSequence])"

definition integer_error :: "int option \<Rightarrow> storeError list" where
  "integer_error v = (if int4_opt v then [] else [NumericValueOutOfRange])"

section \<open>Query building blocks\<close>

text \<open>\<open>const [row] = ...\<close>: the first row of a result, or undefined.\<close>

definition first :: "'a list \<Rightarrow> 'a option" where
  "first rows = (case rows of [] \<Rightarrow> None | r # _ \<Rightarrow> Some r)"

text \<open>\<open>select().from(t).where(c)\<close>\<close>

definition select_where :: "('r \<Rightarrow> bool) \<Rightarrow> 'r list \<Rightarrow> 'r list" where
  "select_where c rows = filter c rows"

text \<open>
  \<open>orderBy(desc(column))\<close>: descending by the column; rows with equal keys come in
  an order the store chooses (here: the reverse of a stable ascending sort).
\<close>

definition orderBy_desc :: "('r \<Rightarrow> nat) \<Rightarrow> 'r list \<Rightarrow> 'r list" where
  "orderBy_desc col rows = rev (sort_key col rows)"

text \<open>
  \<open>update(t).set(f).where(c).returning()\<close>: the table after the update, and the
  updated rows.
\<close>

definition update_where :: "('r \<Rightarrow> bool) \<Rightarrow> ('r \<Rightarrow> 'r) \<Rightarrow> 'r list \<Rightarrow> 'r list \<times> 'r list" where
  "update_where c f rows =
     (map (\<lambda>r. if c r then f r else r) rows, map f (filter c rows))"

section \<open>Storage layer (class DatabaseStorage)\<close>

text \<open>
  The values of an insert are converted to the types of their columns, in the order of
  the columns, before the row is written; the first value that cannot be converted
  makes the insert throw.
\<close>

definition createListing_errors :: "InsertListing \<Rightarrow> storeError list" where
  "createListing_errors insertListing =
     text_error (il_city insertListing)
     @ text_error (il_commune insertListing)
     @ text_error (il_neighborhood insertListing)
     @ integer_error (Some (il_rooms insertListing))
     @ text_error (il_propertyType insertListing)
     @ text_error (il_transactionType insertListing)
     @ integer_error (Some (il_price insertListing))
     @ integer_error (il_deposit insertListing)
     @ text_error (il_description insertListing)
     @ text_error (il_phone insertListing)
     @ concat (map text_error (il_images insertListing))"

definition createListing ::
  "generated \<Rightarrow> InsertListing \<Rightarrow> database \<Rightarrow> storeError + (Listing \<times> database)" where
  "createListing g insertListing db =
     (case createListing_errors insertListing of
        e # _ \<Rightarrow> Inl e
      | [] \<Rightarrow>
          if gen_random_uuid g \<in> set (map l_id (listings db)) then Inl UniqueViolation
          else
            let listing = \<lparr> l_id = gen_random_uuid g,
                  l_city = il_city insertListing,
                  l_commune = il_commune insertListing,
                  l_neighborhood = il_neighborhood insertListing,
                  l_rooms = il_rooms insertListing,
                  l_propertyType = il_propertyType insertListing,
                  l_transactionType = il_transactionType insertListing,
                  l_price = il_price insertListing,
                  l_deposit = il_deposit insertListing,
                  l_description = il_description insertListing,
                  l_phone = il_phone insertListing,
                  l_images = il_images insertListing,
                  l_status = ''pending'',
                  l_paymentStatus = ''pending'',
                  l_featured = False,
                  l_createdAt = now g \<rparr>
            in Inr (listing, db\<lparr>listings := listings db @ [listing]\<rparr>))"

definition getListing :: "string \<Rightarrow> database \<Rightarrow> Listing option" where
  "getListing i db = first (select_where (\<lambda>l. l_id l = i) (listings db))"

definition getAllListings :: "database \<Rightarrow> Listing list" where
  "getAllListings db = orderBy_desc l_createdAt (listings db)"

definition getApprovedListings :: "database \<Rightarrow> Listing list" where
  "getApprovedListings db =
     orderBy_desc l_createdAt
       (select_where (\<lambda>l. l_status l = ''approved'' \<and> l_paymentStatus l = ''confirmed'')
          (listings db))"

definition getPendingListings :: "database \<Rightarrow> Listing list" where
  "getPendingListings db =
     orderBy_desc l_createdAt (select_where (\<lambda>l. l_status l = ''pending'') (listings db))"

text \<open>
  An update converts the value it sets to the type of the column first: a value the
  \<open>text\<close> column cannot hold makes it throw, and no row is written. The id of the
  \<open>where\<close> clause is compared with the ids of the rows.
\<close>

definition updateListingStatus ::
  "string \<Rightarrow> string \<Rightarrow> database \<Rightarrow> storeError + (Listing option \<times> database)" where
  "updateListingStatus i status db =
     (if \<not> pg_text status then Inl InvalidByteSequence
      else
        let (rows, returning) =
              update_where (\<lambda>l. l_id l = i) (\<lambda>l. l\<lparr>l_status := status\<rparr>) (listings db)
        in Inr (first returning, db\<lparr>listings := rows\<rparr>))"

definition updateListingPaymentStatus ::
  "string \<Rightarrow> string \<Rightarrow> database \<Rightarrow> storeError + (Listing option \<times> database)" where
  "updateListingPaymentStatus i paymentStatus db =
     (if \<not> pg_text paymentStatus then Inl InvalidByteSequence
      else
        let (rows, returning) =
              update_where (\<lambda>l. l_id l = i) (\<lambda>l. l\<lparr>l_paymentStatus := paymentStatus\<rparr>)
                (listings db)
        in Inr (first returning, db\<lparr>listings := rows\<rparr>))"

definition approveAllPendingListings :: "database \<Rightarrow> nat \<times> database" where
  "approveAllPendingListings db =
     (let (rows, result) =
            update_where (\<lambda>l. l_status l = ''pending'' \<and> l_paymentStatus l = ''confirmed'')
              (\<lambda>l. l\<lparr>l_status := ''approved''\<rparr>) (listings db)
      in (length result, db\<lparr>listings := rows\<rparr>))"

definition createPayment ::
  "generated \<Rightarrow> InsertPayment \<Rightarrow> database \<Rightarrow> storeError + (Payment \<times> database)" where
  "createPayment g insertPayment db =
     (if gen_random_uuid g \<in> set (map p_id (payments db)) then Inl UniqueViolation
      else if \<not> int4 (ip_amount insertPayment) then Inl NumericValueOutOfRange
      else if (case ip_listingId insertPayment of
                 None \<Rightarrow> False
               | Some lid \<Rightarrow> lid \<notin> set (map l_id (listings db)))
      then Inl ForeignKeyViolation
      else
        let payment = \<lparr> p_id = gen_random_uuid g,
              p_listingId = ip_listingId insertPayment,
              p_type = ip_type insertPayment,
              p_amount = ip_amount insertPayment,
              p_status = ''pending'',
              p_createdAt = now g \<rparr>
        in Inr (payment, db\<lparr>payments := payments db @ [payment]\<rparr>))"

definition getPayment :: "string \<Rightarrow> database \<Rightarrow> Payment option" where
  "getPayment i db = first (select_where (\<lambda>p. p_id p = i) (payments db))"

definition updatePaymentStatus ::
  "string \<Rightarrow> string \<Rightarrow> database \<Rightarrow> storeError + (Payment option \<times> database)" where
  "updatePaymentStatus i status db =
     (if \<not> pg_text status then Inl InvalidByteSequence
      else
        let (rows, returning) =
              update_where (\<lambda>p. p_id p = i) (\<lambda>p. p\<lparr>p_status := status\<rparr>) (payments db)
        in Inr (first returning, db\<lparr>payments := rows\<rparr>))"

definition createPhoneUnlock ::
  "generated \<Rightarrow> InsertPhoneUnlock \<Rightarrow> database \<Rightarrow> storeError + (PhoneUnlock \<times> database)" where
  "createPhoneUnlock g insertUnlock db =
     (if gen_random_uuid g \<in> set (map u_id (phoneUnlocks db)) then Inl UniqueViolation
      else if iu_listingId insertUnlock \<notin> set (map l_id (listings db))
      then Inl ForeignKeyViolation
      else
        let unlock = \<lparr> u_id = gen_random_uuid g,
              u_listingId = iu_listingId insertUnlock,
              u_paymentStatus = ''pending'',
              u_createdAt = now g \<rparr>
        in Inr (unlock, db\<lparr>phoneUnlocks := phoneUnlocks db @ [unlock]\<rparr>))"

definition getPhoneUnlock :: "string \<Rightarrow> database \<Rightarrow> PhoneUnlock option" where
  "getPhoneUnlock i db = first (select_where (\<lambda>u. u_id u = i) (phoneUnlocks db))"

definition updatePhoneUnlockStatus ::
  "string \<Rightarrow> string \<Rightarrow> database \<Rightarrow> storeError + (PhoneUnlock option \<times> database)" where
  "updatePhoneUnlockStatus i paymentStatus db =
     (if \<not> pg_text paymentStatus then Inl InvalidByteSequence
      else
        let (rows, returning) =
              update_where (\<lambda>u. u_id u = i) (\<lambda>u. u\<lparr>u_paymentStatus := paymentStatus\<rparr>)
                (phoneUnlocks db)
        in Inr (first returning, db\<lparr>phoneUnlocks := rows\<rparr>))"

section \<open>Values of the request payloads\<close>

text \<open>
  A JavaScript value as a request carries it. Numbers are the integers, which is what
  \<open>parseInt\<close> returns (exactly so below \<open>2^53\<close>; beyond, JavaScript rounds to a
  double, and such numbers are outside the range of every integer column), and
  \<open>NaN\<close>. An object is the list of its entries; reading a property takes the first
  entry with that key and gives \<open>undefined\<close> when there is none.
\<close>

datatype jsval =
    JUndefined
  | JNull
  | JBool bool
  | JNum int
  | JNaN
  | JStr string
  | JArr "jsval list"
  | JObj "(string \<times> jsval) list"

definition getField :: "(string \<times> jsval) list \<Rightarrow> string \<Rightarrow> jsval" where
  "getField kvs k = (case map_of kvs k of None \<Rightarrow> JUndefined | Some v \<Rightarrow> v)"

subsection \<open>The body of a multipart request\<close>

text \<open>
  \<open>req.body\<close> as the upload middleware builds it from the text fields of the form. A
  field is a string under its name; a name that occurs more than once has the array of
  its values; names written with brackets give nested arrays and objects. The body is
  an object: the list of its entries, no name twice.
\<close>

datatype field =
    FStr string
  | FArr "field list"
  | FObj "(string \<times> field) list"

fun to_jsval :: "field \<Rightarrow> jsval" where
  "to_jsval (FStr s) = JStr s"
| "to_jsval (FArr xs) = JArr (map to_jsval xs)"
| "to_jsval (FObj kvs) = JObj (map (\<lambda>(k, v). (k, to_jsval v)) kvs)"

text \<open>
  The conversion to a string that \<open>parseInt\<close> applies to its argument: an array is
  its elements joined by commas, an object is \<open>[object Object]\<close>.
\<close>

fun join :: "string list \<Rightarrow> string" where
  "join [] = []"
| "join [x] = x"
| "join (x # y # zs) = x @ '','' @ join (y # zs)"

fun toString :: "field \<Rightarrow> string" where
  "toString (FStr s) = s"
| "toString (FArr xs) = join (map toString xs)"
| "toString (FObj kvs) = ''[object Object]''"

text \<open>The truth of a value in a condition: of these, only the empty string is false.\<close>

fun truthy :: "field \<Rightarrow> bool" where
  "truthy (FStr s) = (s \<noteq> [])"
| "truthy (FArr xs) = True"
| "truthy (FObj kvs) = True"

subsection \<open>parseInt\<close>

text \<open>
  \<open>parseInt(s)\<close> with no radix: leading white space is skipped, then an optional
  sign, then an optional \<open>0x\<close>/\<open>0X\<close> (radix 16, otherwise 10), then the longest
  run of digits of the radix; \<open>NaN\<close> (here \<open>None\<close>) when that run is empty.
  White space is the characters U+0009 to U+000D, U+0020, U+00A0, U+1680, U+2000 to
  U+200A, U+2028, U+2029, U+202F, U+205F, U+3000 and U+FEFF, here in UTF-8.
\<close>

definition strWhiteSpace :: "string list" where
  "strWhiteSpace =
     [[CHR 0x09], [CHR 0x0A], [CHR 0x0B], [CHR 0x0C], [CHR 0x0D], [CHR 0x20],
      [CHR 0xC2, CHR 0xA0], [CHR 0xE1, CHR 0x9A, CHR 0x80],
      [CHR 0xE2, CHR 0x80, CHR 0x80], [CHR 0xE2, CHR 0x80, CHR 0x81],
      [CHR 0xE2, CHR 0x80, CHR 0x82], [CHR 0xE2, CHR 0x80, CHR 0x83],
      [CHR 0xE2, CHR 0x80, CHR 0x84], [CHR 0xE2, CHR 0x80, CHR 0x85],
      [CHR 0xE2, CHR 0x80, CHR 0x86], [CHR 0xE2, CHR 0x80, CHR 0x87],
      [CHR 0xE2, CHR 0x80, CHR 0x88], [CHR 0xE2, CHR 0x80, CHR 0x89],
      [CHR 0xE2, CHR 0x80, CHR 0x8A], [CHR 0xE2, CHR 0x80, CHR 0xA8],
      [CHR 0xE2, CHR 0x80, CHR 0xA9], [CHR 0xE2, CHR 0x80, CHR 0xAF],
      [CHR 0xE2, CHR 0x81, CHR 0x9F], [CHR 0xE3, CHR 0x80, CHR 0x80],
      [CHR 0xEF, CHR 0xBB, CHR 0xBF]]"

text \<open>The length of the white space character a string starts with, 0 when it starts with none.\<close>

definition whiteSpacePrefix :: "string \<Rightarrow> nat" where
  "whiteSpacePrefix s =
     (case find (\<lambda>w. take (length w) s = w) strWhiteSpace of
        None \<Rightarrow> 0
      | Some w \<Rightarrow> length w)"

function skipWhiteSpace :: "string \<Rightarrow> string" where
  "skipWhiteSpace s =
     (if whiteSpacePrefix s = 0 then s else skipWhiteSpace (drop (whiteSpacePrefix s) s))"
  by pat_completeness auto
termination
proof (relation "measure length")
  show "wf (measure length)" by simp
next
  fix s :: string
  assume pos: "whiteSpacePrefix s \<noteq> 0"
  have "whiteSpacePrefix s \<le> length s"
  proof (cases "find (\<lambda>w. take (length w) s = w) strWhiteSpace")
    case None
    then show ?thesis by (simp add: whiteSpacePrefix_def)
  next
    case (Some w)
    then have "take (length w) s = w" by (auto simp add: find_Some_iff)
    then have "length (take (length w) s) = length w" by simp
    then have "length w \<le> length s" by simp
    with Some show ?thesis by (simp add: whiteSpacePrefix_def)
  qed
  with pos show "(drop (whiteSpacePrefix s) s, s) \<in> measure length" by simp
qed

declare skipWhiteSpace.simps [simp del]

definition digitValue :: "char \<Rightarrow> nat" where
  "digitValue c =
     (let n = (of_char c :: nat) in
      if 48 \<le> n \<and> n \<le> 57 then n - 48
      else if 97 \<le> n \<and> n \<le> 122 then n - 87
      else if 65 \<le> n \<and> n \<le> 90 then n - 55
      else 36)"

definition parseInt :: "string \<Rightarrow> int option" where
  "parseInt inputString =
     (let S = skipWhiteSpace inputString;
          sign = (if take 1 S = ''-'' then - 1 else (1::int));
          S1 = (if take 1 S = ''+'' \<or> take 1 S = ''-'' then drop 1 S else S);
          hex = (take 2 S1 = ''0x'' \<or> take 2 S1 = ''0X'');
          R = (if hex then 16 else (10::nat));
          S2 = (if hex then drop 2 S1 else S1);
          Z = takeWhile (\<lambda>c. digitValue c < R) S2
      in if Z = [] then None
         else Some (sign * int (foldl (\<lambda>acc c. acc * R + digitValue c) 0 Z)))"

text \<open>
  \<open>parseInt(req.body.f)\<close>: a missing field is \<open>undefined\<close>, read as the string
  "undefined".
\<close>

definition parseInt_field :: "field option \<Rightarrow> jsval" where
  "parseInt_field v =
     (case parseInt (case v of None \<Rightarrow> ''undefined'' | Some f \<Rightarrow> toString f) of
        None \<Rightarrow> JNaN
      | Some n \<Rightarrow> JNum n)"

section \<open>Validation schemas (createInsertSchema, omit, extend)\<close>

text \<open>
  The schemas are built by the validation library from the table declarations. What
  the library does with them, as far as the schemas of this repository go:
  \<^item> a \<open>text\<close>/\<open>varchar\<close> column that is \<open>notNull\<close> with no default is a required
    string: any string passes, the empty one too; anything else, \<open>undefined\<close>
    included, is an \<open>invalid_type\<close> issue;
  \<^item> an \<open>integer\<close> column that is nullable is an optional, nullable number;
  \<^item> \<open>omit\<close> removes keys from the object schema, and an object schema drops the keys
    of the input it does not know (it does not reject them);
  \<^item> \<open>extend\<close> replaces the schema of a key: \<open>z.number().min(1)\<close> wants a number
    (not \<open>NaN\<close>) that is at least 1, \<open>z.array(z.string()).min(1)\<close> an array of
    strings with at least one element;
  \<^item> parsing an object checks every key and collects all issues; it fails (throws a
    ZodError carrying the issues) when there is at least one.
\<close>

datatype issueCode = invalid_type | too_small

datatype pathSegment = Key string | Index nat

datatype zodIssue = ZodIssue "pathSegment list" issueCode

definition issues_of :: "zodIssue list + 'a \<Rightarrow> zodIssue list" where
  "issues_of r = (case r of Inl issues \<Rightarrow> issues | Inr _ \<Rightarrow> [])"

fun under :: "pathSegment \<Rightarrow> zodIssue \<Rightarrow> zodIssue" where
  "under seg (ZodIssue path code) = ZodIssue (seg # path) code"

definition issues_at :: "pathSegment \<Rightarrow> zodIssue list + 'a \<Rightarrow> zodIssue list" where
  "issues_at seg r = map (under seg) (issues_of r)"

definition z_string :: "jsval \<Rightarrow> zodIssue list + string" where
  "z_string v = (case v of JStr s \<Rightarrow> Inr s | _ \<Rightarrow> Inl [ZodIssue [] invalid_type])"

definition z_number_min :: "int \<Rightarrow> jsval \<Rightarrow> zodIssue list + int" where
  "z_number_min m v =
     (case v of
        JNum n \<Rightarrow> if n < m then Inl [ZodIssue [] too_small] else Inr n
      | _ \<Rightarrow> Inl [ZodIssue [] invalid_type])"

definition z_number_nullable_optional :: "jsval \<Rightarrow> zodIssue list + int option" where
  "z_number_nullable_optional v =
     (case v of
        JUndefined \<Rightarrow> Inr None
      | JNull \<Rightarrow> Inr None
      | JNum n \<Rightarrow> Inr (Some n)
      | _ \<Rightarrow> Inl [ZodIssue [] invalid_type])"

definition z_array_string_min :: "nat \<Rightarrow> jsval \<Rightarrow> zodIssue list + string list" where
  "z_array_string_min m v =
     (case v of
        JArr xs \<Rightarrow>
          (let issues = (if length xs < m then [ZodIssue [] too_small] else [])
                 @ concat (map (\<lambda>(i, x). issues_at (Index i) (z_string x)) (enumerate 0 xs))
           in if issues = [] then Inr (map (\<lambda>x. projr (z_string x)) xs) else Inl issues)
      | _ \<Rightarrow> Inl [ZodIssue [] invalid_type])"

text \<open>
  The listing schema, key by key in the order of the table declaration: the issues of
  all keys, and the object a successful parse returns (it has the keys of the schema
  and no other).
\<close>

definition insertListingSchema_issues :: "(string \<times> jsval) list \<Rightarrow> zodIssue list" where
  "insertListingSchema_issues kvs =
     issues_at (Key ''city'') (z_string (getField kvs ''city''))
     @ issues_at (Key ''commune'') (z_string (getField kvs ''commune''))
     @ issues_at (Key ''neighborhood'') (z_string (getField kvs ''neighborhood''))
     @ issues_at (Key ''rooms'') (z_number_min 1 (getField kvs ''rooms''))
     @ issues_at (Key ''propertyType'') (z_string (getField kvs ''propertyType''))
     @ issues_at (Key ''transactionType'') (z_string (getField kvs ''transactionType''))
     @ issues_at (Key ''price'') (z_number_min 1 (getField kvs ''price''))
     @ issues_at (Key ''deposit'') (z_number_nullable_optional (getField kvs ''deposit''))
     @ issues_at (Key ''description'') (z_string (getField kvs ''description''))
     @ issues_at (Key ''phone'') (z_string (getField kvs ''phone''))
     @ issues_at (Key ''images'') (z_array_string_min 1 (getField kvs ''images''))"

definition insertListingSchema_output :: "(string \<times> jsval) list \<Rightarrow> InsertListing" where
  "insertListingSchema_output kvs =
     \<lparr> il_city = projr (z_string (getField kvs ''city'')),
       il_commune = projr (z_string (getField kvs ''commune'')),
       il_neighborhood = projr (z_string (getField kvs ''neighborhood'')),
       il_rooms = projr (z_number_min 1 (getField kvs ''rooms'')),
       il_propertyType = projr (z_string (getField kvs ''propertyType'')),
       il_transactionType = projr (z_string (getField kvs ''transactionType'')),
       il_price = projr (z_number_min 1 (getField kvs ''price'')),
       il_deposit = projr (z_number_nullable_optional (getField kvs ''deposit'')),
       il_description = projr (z_string (getField kvs ''description'')),
       il_phone = projr (z_string (getField kvs ''phone'')),
       il_images = projr (z_array_string_min 1 (getField kvs ''images'')) \<rparr>"

definition insertListingSchema :: "jsval \<Rightarrow> zodIssue list + InsertListing" where
  "insertListingSchema data =
     (case data of
        JObj kvs \<Rightarrow>
          if insertListingSchema_issues kvs = [] then Inr (insertListingSchema_output kvs)
          else Inl (insertListingSchema_issues kvs)
      | _ \<Rightarrow> Inl [ZodIssue [] invalid_type])"

definition insertPhoneUnlockSchema :: "jsval \<Rightarrow> zodIssue list + InsertPhoneUnlock" where
  "insertPhoneUnlockSchema data =
     (case data of
        JObj kvs \<Rightarrow>
          (let listingId = z_string (getField kvs ''listingId'');
               issues = issues_at (Key ''listingId'') listingId
           in if issues = [] then Inr \<lparr> iu_listingId = projr listingId \<rparr> else Inl issues)
      | _ \<Rightarrow> Inl [ZodIssue [] invalid_type])"

text \<open>The columns the listing schema omits: they are assigned by the store.\<close>

definition serverAssigned :: "string list" where
  "serverAssigned = [''id'', ''status'', ''paymentStatus'', ''featured'', ''createdAt'']"

text \<open>The seven text columns a listing payload must carry.\<close>

definition requiredText :: "string list" where
  "requiredText = [''city'', ''commune'', ''neighborhood'', ''propertyType'',
     ''transactionType'', ''description'', ''phone'']"

section \<open>File upload (the multer configuration)\<close>

text \<open>
  One file of the form: the name of its form field, its content type, its size in
  bytes and the name \<open>diskStorage.filename\<close> gives it (built from the clock and a
  random number, so it is an input here).
\<close>

record MulterFile =
  f_fieldname :: string
  f_mimetype :: string
  f_size :: nat
  f_filename :: string

datatype multerError =
    LIMIT_UNEXPECTED_FILE
  | LIMIT_FILE_SIZE
  | FileFilterError
  | LIMIT_FIELD_KEY
  | LIMIT_FIELD_VALUE

definition fileSize :: nat where
  "fileSize = 10 * 1024 * 1024"

definition allowedTypes :: "string list" where
  "allowedTypes = [''image/jpeg'', ''image/png'', ''image/jpg'']"

text \<open>
  \<open>upload.array(name, maxCount)\<close>: the files are taken in the order of the
  request; a file of another form field, one file too many, a content type outside
  \<open>allowedTypes\<close> or a file larger than \<open>fileSize\<close> aborts the upload with an
  error.
\<close>

fun upload_array :: "string \<Rightarrow> nat \<Rightarrow> MulterFile list \<Rightarrow> multerError + MulterFile list" where
  "upload_array name maxCount [] = Inr []"
| "upload_array name maxCount (file # rest) =
     (if f_fieldname file \<noteq> name \<or> maxCount = 0 then Inl LIMIT_UNEXPECTED_FILE
      else if f_mimetype file \<notin> set allowedTypes then Inl FileFilterError
      else if fileSize < f_size file then Inl LIMIT_FILE_SIZE
      else (case upload_array name (maxCount - 1) rest of
              Inl e \<Rightarrow> Inl e
            | Inr files \<Rightarrow> Inr (file # files)))"

section \<open>Request handlers (registerRoutes)\<close>

text \<open>
  A response is its status code and its JSON body. The body \<open>{error: message}\<close> of a
  validation failure carries the message the issues are rendered to; it is kept as
  the issues. \<open>{count, message}\<close> is kept as the count, of which the message is a
  rendering. An error the upload middleware raises never reaches the handler: the
  framework answers it with status 500.
\<close>

datatype resBody =
    ErrorBody string
  | ValidationErrorBody "zodIssue list"
  | FrameworkErrorBody multerError
  | ListingAndPayment Listing Payment
  | UnlockAndPayment PhoneUnlock Payment
  | ListingBody Listing
  | ListingsBody "Listing list"
  | PaymentBody Payment
  | CountBody nat

type_synonym response = "nat \<times> resBody"

definition e_acute :: string where
  "e_acute = [CHR 0xC3, CHR 0xA9]"

definition apostrophe :: string where
  "apostrophe = [CHR 0x27]"

text \<open>
  \<open>{...req.body, rooms: ..., price: ..., deposit: ..., images: imagePaths}\<close>: the
  four computed entries come first, so that they win over a text field of the same name.
\<close>

definition listingData :: "MulterFile list \<Rightarrow> (string \<times> field) list \<Rightarrow> jsval" where
  "listingData files body =
     (let imagePaths = map (\<lambda>file. ''/uploads/'' @ f_filename file) files
      in JObj ([(''rooms'', parseInt_field (map_of body ''rooms'')),
                (''price'', parseInt_field (map_of body ''price'')),
                (''deposit'',
                   (case map_of body ''deposit'' of
                      None \<Rightarrow> JUndefined
                    | Some d \<Rightarrow> if truthy d then parseInt_field (Some d) else JUndefined)),
                (''images'', JArr (map JStr imagePaths))]
               @ map (\<lambda>(k, v). (k, to_jsval v)) body))"

text \<open>
  \<open>app.post('/api/listings', ...)\<close>, after the upload middleware: \<open>files\<close> is
  \<open>req.files\<close>, \<open>body\<close> is \<open>req.body\<close>. \<open>g1\<close> and \<open>g2\<close> are what the
  store generates for the listing and for the payment.
\<close>

definition post_api_listings ::
  "generated \<Rightarrow> generated \<Rightarrow> MulterFile list \<Rightarrow> (string \<times> field) list \<Rightarrow> database
     \<Rightarrow> response \<times> database" where
  "post_api_listings g1 g2 files body db =
     (if files = [] then ((400, ErrorBody ''Au moins une image est requise''), db)
      else
        case insertListingSchema (listingData files body) of
          Inl issues \<Rightarrow> ((400, ValidationErrorBody issues), db)
        | Inr validatedData \<Rightarrow>
            (case createListing g1 validatedData db of
               Inl e \<Rightarrow>
                 ((500, ErrorBody (''Erreur lors de la cr'' @ e_acute @ ''ation de l''
                                   @ apostrophe @ ''annonce'')), db)
             | Inr (listing, db1) \<Rightarrow>
                 (case createPayment g2
                         \<lparr> ip_listingId = Some (l_id listing), ip_type = ''publish'',
                           ip_amount = 1500 \<rparr> db1 of
                    Inl e \<Rightarrow>
                      ((500, ErrorBody (''Erreur lors de la cr'' @ e_acute @ ''ation de l''
                                        @ apostrophe @ ''annonce'')), db1)
                  | Inr (payment, db2) \<Rightarrow> ((200, ListingAndPayment listing payment), db2))))"

text \<open>
  The whole endpoint: the upload middleware, then the handler. The middleware also
  reads the text fields of the form, and refuses the request when the name or the
  value of one is longer than its limits allow; what it makes of the text fields,
  an error or \<open>req.body\<close>, is an input here.
\<close>

definition create_listing_endpoint ::
  "generated \<Rightarrow> generated \<Rightarrow> MulterFile list \<Rightarrow> multerError + (string \<times> field) list
     \<Rightarrow> database \<Rightarrow> response \<times> database" where
  "create_listing_endpoint g1 g2 uploaded textFields db =
     (case upload_array ''images'' 10 uploaded of
        Inl e \<Rightarrow> ((500, FrameworkErrorBody e), db)
      | Inr files \<Rightarrow>
          (case textFields of
             Inl e \<Rightarrow> ((500, FrameworkErrorBody e), db)
           | Inr body \<Rightarrow> post_api_listings g1 g2 files body db))"

definition get_api_listings :: "database \<Rightarrow> response \<times> database" where
  "get_api_listings db = ((200, ListingsBody (getApprovedListings db)), db)"

definition get_api_listings_id :: "string \<Rightarrow> database \<Rightarrow> response \<times> database" where
  "get_api_listings_id i db =
     (case getListing i db of
        None \<Rightarrow> ((404, ErrorBody (''Annonce non trouv'' @ e_acute @ ''e'')), db)
      | Some listing \<Rightarrow> ((200, ListingBody listing), db))"

definition post_api_phone_unlock ::
  "generated \<Rightarrow> generated \<Rightarrow> jsval \<Rightarrow> database \<Rightarrow> response \<times> database" where
  "post_api_phone_unlock g1 g2 body db =
     (case insertPhoneUnlockSchema body of
        Inl issues \<Rightarrow> ((400, ValidationErrorBody issues), db)
      | Inr validatedData \<Rightarrow>
          (case createPhoneUnlock g1 validatedData db of
             Inl e \<Rightarrow>
               ((500, ErrorBody (''Erreur lors du d'' @ e_acute @ ''blocage du num''
                                 @ e_acute @ ''ro'')), db)
           | Inr (unlock, db1) \<Rightarrow>
               (case createPayment g2
                       \<lparr> ip_listingId = None, ip_type = ''unlock'', ip_amount = 2500 \<rparr> db1 of
                  Inl e \<Rightarrow>
                    ((500, ErrorBody (''Erreur lors du d'' @ e_acute @ ''blocage du num''
                                      @ e_acute @ ''ro'')), db1)
                | Inr (payment, db2) \<Rightarrow> ((200, UnlockAndPayment unlock payment), db2))))"

text \<open>
  \<open>payment.listingId && payment.type === 'publish'\<close>: a listing id counts when it
  is neither null nor the empty string.
\<close>

definition post_api_payments_confirm :: "string \<Rightarrow> database \<Rightarrow> response \<times> database" where
  "post_api_payments_confirm i db =
     (case updatePaymentStatus i ''confirmed'' db of
        Inl e \<Rightarrow> ((500, ErrorBody ''Erreur lors de la confirmation du paiement''), db)
      | Inr (None, db1) \<Rightarrow> ((404, ErrorBody (''Paiement non trouv'' @ e_acute)), db1)
      | Inr (Some payment, db1) \<Rightarrow>
          (case p_listingId payment of
             None \<Rightarrow> ((200, PaymentBody payment), db1)
           | Some listingId \<Rightarrow>
               if listingId \<noteq> [] \<and> p_type payment = ''publish''
               then (case updateListingPaymentStatus listingId ''confirmed'' db1 of
                       Inl e \<Rightarrow>
                         ((500, ErrorBody ''Erreur lors de la confirmation du paiement''), db1)
                     | Inr (listing, db2) \<Rightarrow> ((200, PaymentBody payment), db2))
               else ((200, PaymentBody payment), db1)))"

definition get_api_admin_listings_pending :: "database \<Rightarrow> response \<times> database" where
  "get_api_admin_listings_pending db = ((200, ListingsBody (getPendingListings db)), db)"

definition get_api_admin_listings_all :: "database \<Rightarrow> response \<times> database" where
  "get_api_admin_listings_all db = ((200, ListingsBody (getAllListings db)), db)"

definition post_api_admin_listings_approve :: "string \<Rightarrow> database \<Rightarrow> response \<times> database" where
  "post_api_admin_listings_approve i db =
     (case updateListingStatus i ''approved'' db of
        Inl e \<Rightarrow>
          ((500, ErrorBody (''Erreur lors de l'' @ apostrophe @ ''approbation de l''
                            @ apostrophe @ ''annonce'')), db)
      | Inr (None, db1) \<Rightarrow> ((404, ErrorBody (''Annonce non trouv'' @ e_acute @ ''e'')), db1)
      | Inr (Some listing, db1) \<Rightarrow> ((200, ListingBody listing), db1))"

definition post_api_admin_listings_reject :: "string \<Rightarrow> database \<Rightarrow> response \<times> database" where
  "post_api_admin_listings_reject i db =
     (case updateListingStatus i ''rejected'' db of
        Inl e \<Rightarrow>
          ((500, ErrorBody (''Erreur lors du rejet de l'' @ apostrophe @ ''annonce'')), db)
      | Inr (None, db1) \<Rightarrow> ((404, ErrorBody (''Annonce non trouv'' @ e_acute @ ''e'')), db1)
      | Inr (Some listing, db1) \<Rightarrow> ((200, ListingBody listing), db1))"

definition post_api_admin_listings_approve_all :: "database \<Rightarrow> response \<times> database" where
  "post_api_admin_listings_approve_all db =
     (let (count, db1) = approveAllPendingListings db in ((200, CountBody count), db1))"

subsection \<open>The system as a state machine\<close>

text \<open>One constructor per route that \<open>registerRoutes\<close> installs.\<close>

datatype request =
    PostListings generated generated "MulterFile list"
      "multerError + (string \<times> field) list"
  | GetListings
  | GetListing string
  | PostPhoneUnlock generated generated jsval
  | PostPaymentConfirm string
  | GetAdminPending
  | GetAdminAll
  | PostAdminApprove string
  | PostAdminReject string
  | PostAdminApproveAll

fun handle :: "request \<Rightarrow> database \<Rightarrow> response \<times> database" where
  "handle (PostListings g1 g2 uploaded textFields) db =
     create_listing_endpoint g1 g2 uploaded textFields db"
| "handle GetListings db = get_api_listings db"
| "handle (GetListing i) db = get_api_listings_id i db"
| "handle (PostPhoneUnlock g1 g2 body) db = post_api_phone_unlock g1 g2 body db"
| "handle (PostPaymentConfirm i) db = post_api_payments_confirm i db"
| "handle GetAdminPending db = get_api_admin_listings_pending db"
| "handle GetAdminAll db = get_api_admin_listings_all db"
| "handle (PostAdminApprove i) db = post_api_admin_listings_approve i db"
| "handle (PostAdminReject i) db = post_api_admin_listings_reject i db"
| "handle PostAdminApproveAll db = post_api_admin_listings_approve_all db"

text \<open>The store after a sequence of requests, served one after the other.\<close>

fun run :: "request list \<Rightarrow> database \<Rightarrow> database" where
  "run [] db = db"
| "run (r # rs) db = run rs (snd (handle r db))"

section \<open>Auxiliary notions for the proofs\<close>

text \<open>
  One table of listings before and after a request: no row is lost or moves, the ids
  stay, and a status that changes becomes \<open>approved\<close> or \<open>rejected\<close>.
\<close>

definition only_settles :: "Listing list \<Rightarrow> Listing list \<Rightarrow> bool" where
  "only_settles rows rows' \<longleftrightarrow>
     length rows \<le> length rows'
     \<and> (\<forall>k<length rows.
           l_id (rows' ! k) = l_id (rows ! k)
           \<and> (l_status (rows' ! k) = l_status (rows ! k)
              \<or> l_status (rows' ! k) = ''approved''
              \<or> l_status (rows' ! k) = ''rejected''))"

subsection \<open>A small store and small requests, for concrete instances\<close>

definition ex_listing :: "string \<Rightarrow> string \<Rightarrow> string \<Rightarrow> Listing" where
  "ex_listing i status paymentStatus =
     \<lparr> l_id = i, l_city = ''Kinshasa'', l_commune = ''Gombe'', l_neighborhood = ''Centre'',
       l_rooms = 3, l_propertyType = ''appartement'', l_transactionType = ''location'',
       l_price = 50000, l_deposit = None, l_description = ''Bel appartement'',
       l_phone = ''0990000000'', l_images = [''/a.jpg''], l_status = status,
       l_paymentStatus = paymentStatus, l_featured = False, l_createdAt = 1 \<rparr>"

definition ex_payment :: "string \<Rightarrow> string option \<Rightarrow> string \<Rightarrow> int \<Rightarrow> Payment" where
  "ex_payment i listingId type amount =
     \<lparr> p_id = i, p_listingId = listingId, p_type = type, p_amount = amount,
       p_status = ''pending'', p_createdAt = 2 \<rparr>"

definition ex_db :: database where
  "ex_db =
     \<lparr> listings = [ex_listing ''a'' ''pending'' ''pending'',
                   ex_listing ''b'' ''pending'' ''confirmed'',
                   ex_listing ''c'' ''approved'' ''confirmed''],
       payments = [ex_payment ''p1'' (Some ''a'') ''publish'' 1500,
                   ex_payment ''p2'' None ''unlock'' 2500],
       phoneUnlocks = [] \<rparr>"

definition ex_payload :: "(string \<times> jsval) list" where
  "ex_payload =
     [(''city'', JStr ''Kinshasa''), (''commune'', JStr ''Gombe''),
      (''neighborhood'', JStr ''Centre''), (''rooms'', JNum 3),
      (''propertyType'', JStr ''appartement''), (''transactionType'', JStr ''location''),
      (''price'', JNum 50000), (''description'', JStr ''Bel appartement''),
      (''phone'', JStr ''0990000000''), (''images'', JArr [JStr ''/a.jpg''])]"

definition ex_insert :: "string \<Rightarrow> InsertListing" where
  "ex_insert city =
     \<lparr> il_city = city, il_commune = ''Gombe'', il_neighborhood = ''Centre'', il_rooms = 3,
       il_propertyType = ''appartement'', il_transactionType = ''location'',
       il_price = 50000, il_deposit = None, il_description = ''Bel appartement'',
       il_phone = ''0990000000'', il_images = [''/a.jpg''] \<rparr>"



definition ex_gen :: "string \<Rightarrow> generated" where
  "ex_gen i = \<lparr> gen_random_uuid = i, now = 7 \<rparr>"

section \<open>Facts about the query building blocks and the storage methods\<close>

lemma set_orderBy_desc: "set (orderBy_desc col rows) = set rows"
  by (simp add: orderBy_desc_def)

lemma update_where_length: "length (fst (update_where c f rows)) = length rows"
  by (simp add: update_where_def)

lemma update_where_nth:
  "k < length rows \<Longrightarrow>
     fst (update_where c f rows) ! k = (if c (rows ! k) then f (rows ! k) else rows ! k)"
  by (simp add: update_where_def)

lemma update_where_returning: "snd (update_where c f rows) = map f (filter c rows)"
  by (simp add: update_where_def)

lemma first_filter_ex: "r \<in> set rows \<Longrightarrow> c r \<Longrightarrow> \<exists>r'. first (filter c rows) = Some r'"
proof -
  assume "r \<in> set rows" "c r"
  then have "filter c rows \<noteq> []" by (auto simp add: filter_empty_conv)
  then show ?thesis by (cases "filter c rows") (simp_all add: first_def)
qed

lemma first_map: "first (map f rows) = map_option f (first rows)"
  by (cases rows) (simp_all add: first_def)

lemma first_filter_Some: "first (filter c rows) = Some r \<Longrightarrow> r \<in> set rows \<and> c r"
proof -
  assume "first (filter c rows) = Some r"
  then have "r \<in> set (filter c rows)"
    by (cases "filter c rows") (simp_all add: first_def)
  then show ?thesis by simp
qed

lemma listings_createListing:
  "createListing g il db = Inr (l, db') \<Longrightarrow> listings db' = listings db @ [l]"
  by (auto simp add: createListing_def Let_def split: if_splits list.splits)

lemma listings_createPayment:
  "createPayment g ip db = Inr (p, db') \<Longrightarrow> listings db' = listings db"
  by (auto simp add: createPayment_def Let_def split: if_splits)

lemma listings_createPhoneUnlock:
  "createPhoneUnlock g iu db = Inr (u, db') \<Longrightarrow> listings db' = listings db"
  by (auto simp add: createPhoneUnlock_def Let_def split: if_splits)

lemma listings_approveAllPendingListings:
  "listings (snd (approveAllPendingListings db))
     = map (\<lambda>l. if l_status l = ''pending'' \<and> l_paymentStatus l = ''confirmed''
                 then l\<lparr>l_status := ''approved''\<rparr> else l) (listings db)"
  by (simp add: approveAllPendingListings_def update_where_def)

lemma pg_text_confirmed: "pg_text ''confirmed''"
  by (simp add: pg_text_def)

lemma pg_text_approved: "pg_text ''approved''"
  by (simp add: pg_text_def)

lemma pg_text_rejected: "pg_text ''rejected''"
  by (simp add: pg_text_def)

lemma updateListingStatus_text:
  "pg_text s \<Longrightarrow>
     updateListingStatus i s db
       = Inr (map_option (\<lambda>l. l\<lparr>l_status := s\<rparr>) (getListing i db),
              db\<lparr>listings := map (\<lambda>l. if l_id l = i then l\<lparr>l_status := s\<rparr> else l)
                                (listings db)\<rparr>)"
  by (simp add: updateListingStatus_def update_where_def first_map getListing_def
      select_where_def)

lemma updateListingPaymentStatus_text:
  "pg_text s \<Longrightarrow>
     updateListingPaymentStatus i s db
       = Inr (map_option (\<lambda>l. l\<lparr>l_paymentStatus := s\<rparr>) (getListing i db),
              db\<lparr>listings := map (\<lambda>l. if l_id l = i then l\<lparr>l_paymentStatus := s\<rparr> else l)
                                (listings db)\<rparr>)"
  by (simp add: updateListingPaymentStatus_def update_where_def first_map getListing_def
      select_where_def)

lemma updatePaymentStatus_text:
  "pg_text s \<Longrightarrow>
     updatePaymentStatus i s db
       = Inr (map_option (\<lambda>p. p\<lparr>p_status := s\<rparr>) (getPayment i db),
              db\<lparr>payments := map (\<lambda>p. if p_id p = i then p\<lparr>p_status := s\<rparr> else p)
                                (payments db)\<rparr>)"
  by (simp add: updatePaymentStatus_def update_where_def first_map getPayment_def
      select_where_def)

lemma update_not_text:
  "\<not> pg_text s \<Longrightarrow> updateListingStatus i s db = Inl InvalidByteSequence"
  "\<not> pg_text s \<Longrightarrow> updateListingPaymentStatus i s db = Inl InvalidByteSequence"
  by (simp_all add: updateListingStatus_def updateListingPaymentStatus_def)

lemma getListing_present:
  "i \<in> set (map l_id (listings db)) \<Longrightarrow>
     \<exists>l. getListing i db = Some l \<and> l \<in> set (listings db) \<and> l_id l = i"
proof -
  assume "i \<in> set (map l_id (listings db))"
  then obtain l0 where "l0 \<in> set (listings db)" "l_id l0 = i" by auto
  then obtain l where l: "first (filter (\<lambda>l. l_id l = i) (listings db)) = Some l"
    using first_filter_ex [of l0 "listings db" "\<lambda>l. l_id l = i"] by auto
  with first_filter_Some [OF l] show ?thesis
    by (simp add: getListing_def select_where_def)
qed

lemma confirm_no_listingId:
  "updatePaymentStatus i ''confirmed'' db = Inr (Some p', db1) \<Longrightarrow> p_listingId p' = None \<Longrightarrow>
     post_api_payments_confirm i db = ((200, PaymentBody p'), db1)"
  by (simp add: post_api_payments_confirm_def)

lemma confirm_no_cascade:
  "updatePaymentStatus i ''confirmed'' db = Inr (Some p', db1) \<Longrightarrow>
   p_listingId p' = Some lid \<Longrightarrow> \<not> (lid \<noteq> [] \<and> p_type p' = ''publish'') \<Longrightarrow>
     post_api_payments_confirm i db = ((200, PaymentBody p'), db1)"
  by (auto simp add: post_api_payments_confirm_def)

lemma confirm_cascade:
  "updatePaymentStatus i ''confirmed'' db = Inr (Some p', db1) \<Longrightarrow>
   p_listingId p' = Some lid \<Longrightarrow> lid \<noteq> [] \<Longrightarrow> p_type p' = ''publish'' \<Longrightarrow>
   updateListingPaymentStatus lid ''confirmed'' db1 = Inr (r, db2) \<Longrightarrow>
     post_api_payments_confirm i db = ((200, PaymentBody p'), db2)"
  by (simp add: post_api_payments_confirm_def)

lemma confirm_not_found:
  "updatePaymentStatus i ''confirmed'' db = Inr (None, db1) \<Longrightarrow>
     snd (post_api_payments_confirm i db) = db1"
  by (simp add: post_api_payments_confirm_def)

section \<open>Approved listings\<close>

text \<open>
  Claim C1. A listing of the store is in the result of \<open>getApprovedListings\<close> if and
  only if its status is "approved" and its paymentStatus is "confirmed"; the result
  holds nothing that is not a listing of the store.
\<close>

theorem getApprovedListings_iff:
  "L \<in> set (getApprovedListings db) \<longleftrightarrow>
     L \<in> set (listings db) \<and> l_status L = ''approved'' \<and> l_paymentStatus L = ''confirmed''"
  by (auto simp add: getApprovedListings_def set_orderBy_desc select_where_def)

theorem getApprovedListings_iff_witness:
  "ex_listing ''c'' ''approved'' ''confirmed'' \<in> set (getApprovedListings ex_db)
   \<and> ex_listing ''b'' ''pending'' ''confirmed'' \<notin> set (getApprovedListings ex_db)
   \<and> ex_listing ''a'' ''pending'' ''pending'' \<notin> set (getApprovedListings ex_db)"
  using getApprovedListings_iff [of "ex_listing ''c'' ''approved'' ''confirmed''" ex_db]
    getApprovedListings_iff [of "ex_listing ''b'' ''pending'' ''confirmed''" ex_db]
    getApprovedListings_iff [of "ex_listing ''a'' ''pending'' ''pending''" ex_db]
  by (simp add: ex_db_def ex_listing_def)

section \<open>Bulk approval\<close>

text \<open>
  Claim C2. \<open>approveAllPendingListings\<close> keeps every row in its place; a row whose
  status is "pending" and whose paymentStatus is "confirmed" becomes the same row with
  status "approved", every other row (a pending listing with a pending payment among
  them) is unchanged; the number returned is the number of rows that qualified, which
  is the number of rows whose status changed; payments and phone unlocks are untouched.
\<close>

theorem approveAllPendingListings_exact:
  assumes "approveAllPendingListings db = (n, db')"
  shows "length (listings db') = length (listings db)
    \<and> (\<forall>k<length (listings db).
          (l_status (listings db ! k) = ''pending'' \<and> l_paymentStatus (listings db ! k) = ''confirmed''
             \<longrightarrow> listings db' ! k = (listings db ! k)\<lparr>l_status := ''approved''\<rparr>)
        \<and> (\<not> (l_status (listings db ! k) = ''pending'' \<and> l_paymentStatus (listings db ! k) = ''confirmed'')
             \<longrightarrow> listings db' ! k = listings db ! k))
    \<and> n = card {k. k < length (listings db) \<and> l_status (listings db ! k) = ''pending''
                   \<and> l_paymentStatus (listings db ! k) = ''confirmed''}
    \<and> n = card {k. k < length (listings db) \<and> l_status (listings db' ! k) \<noteq> l_status (listings db ! k)}
    \<and> payments db' = payments db \<and> phoneUnlocks db' = phoneUnlocks db"
proof -
  let ?c = "\<lambda>l. l_status l = ''pending'' \<and> l_paymentStatus l = ''confirmed''"
  let ?f = "\<lambda>l. l\<lparr>l_status := ''approved''\<rparr>"
  from assms have db': "db' = db\<lparr>listings := fst (update_where ?c ?f (listings db))\<rparr>"
    and n: "n = length (snd (update_where ?c ?f (listings db)))"
    by (auto simp add: approveAllPendingListings_def split: prod.splits)
  have len: "length (listings db') = length (listings db)"
    by (simp add: db' update_where_length)
  have nth: "\<And>k. k < length (listings db) \<Longrightarrow>
      listings db' ! k = (if ?c (listings db ! k) then ?f (listings db ! k) else listings db ! k)"
    by (simp add: db' update_where_nth)
  have n1: "n = card {k. k < length (listings db) \<and> ?c (listings db ! k)}"
    by (simp add: n update_where_returning length_filter_conv_card)
  have "{k. k < length (listings db) \<and> l_status (listings db' ! k) \<noteq> l_status (listings db ! k)}
      = {k. k < length (listings db) \<and> ?c (listings db ! k)}"
    using nth by (auto split: if_splits)
  with n1 have n2: "n = card {k. k < length (listings db)
      \<and> l_status (listings db' ! k) \<noteq> l_status (listings db ! k)}"
    by simp
  show ?thesis using len nth n1 n2 by (simp add: db')
qed

theorem approveAllPendingListings_exact_witness:
  "approveAllPendingListings ex_db
     = (1, ex_db\<lparr>listings := [ex_listing ''a'' ''pending'' ''pending'',
                              ex_listing ''b'' ''approved'' ''confirmed'',
                              ex_listing ''c'' ''approved'' ''confirmed'']\<rparr>)
   \<and> (1::nat) = card {k. k < length (listings ex_db)
                        \<and> l_status (listings ex_db ! k) = ''pending''
                        \<and> l_paymentStatus (listings ex_db ! k) = ''confirmed''}"
proof -
  have h: "approveAllPendingListings ex_db
     = (1, ex_db\<lparr>listings := [ex_listing ''a'' ''pending'' ''pending'',
                              ex_listing ''b'' ''approved'' ''confirmed'',
                              ex_listing ''c'' ''approved'' ''confirmed'']\<rparr>)"
    by (simp add: approveAllPendingListings_def update_where_def ex_db_def ex_listing_def)
  from approveAllPendingListings_exact [OF h] h show ?thesis by blast
qed

section \<open>Confirming a payment\<close>

text \<open>
  Claim C3. For a payment id present in the store (\<open>p\<close> is the payment the store
  finds under it), the confirm-payment operation answers with that payment, its status
  "confirmed", and sets the status of every payment row with that id to "confirmed",
  the other payments and all phone unlocks staying as they are. A listing is changed
  if and only if the payment's type is "publish" and its listingId is that listing's
  id, and the change is that its paymentStatus becomes "confirmed"; so a payment of
  type "unlock", or one without a listingId, changes no listing. The listing ids of
  the store are taken to be non-empty, as every generated id is: the handler tests the
  listingId for truth, and the empty string is false.
\<close>

theorem confirm_payment_cascade:
  assumes "getPayment i db = Some p" and "[] \<notin> set (map l_id (listings db))"
  shows "\<exists>db'. post_api_payments_confirm i db
                 = ((200, PaymentBody (p\<lparr>p_status := ''confirmed''\<rparr>)), db')
    \<and> length (payments db') = length (payments db)
    \<and> (\<forall>k<length (payments db).
          payments db' ! k =
            (if p_id (payments db ! k) = i then (payments db ! k)\<lparr>p_status := ''confirmed''\<rparr>
             else payments db ! k))
    \<and> phoneUnlocks db' = phoneUnlocks db
    \<and> length (listings db') = length (listings db)
    \<and> (\<forall>k<length (listings db).
          listings db' ! k =
            (if p_type p = ''publish'' \<and> p_listingId p = Some (l_id (listings db ! k))
             then (listings db ! k)\<lparr>l_paymentStatus := ''confirmed''\<rparr>
             else listings db ! k))
    \<and> (p_type p \<noteq> ''publish'' \<or> p_listingId p = None \<longrightarrow> listings db' = listings db)"
proof -
  let ?p = "p\<lparr>p_status := ''confirmed''\<rparr>"
  let ?cascade = "\<lambda>l. p_type p = ''publish'' \<and> p_listingId p = Some (l_id l)"
  define db1 where "db1 = db\<lparr>payments :=
      map (\<lambda>q. if p_id q = i then q\<lparr>p_status := ''confirmed''\<rparr> else q) (payments db)\<rparr>"
  define db' where "db' = snd (post_api_payments_confirm i db)"
  have upd: "updatePaymentStatus i ''confirmed'' db = Inr (Some ?p, db1)"
    using updatePaymentStatus_text [OF pg_text_confirmed, of i db] assms(1)
    by (simp add: db1_def)
  have cas: "\<And>lid. updateListingPaymentStatus lid ''confirmed'' db1
      = Inr (map_option (\<lambda>l. l\<lparr>l_paymentStatus := ''confirmed''\<rparr>) (getListing lid db1),
             db1\<lparr>listings := map (\<lambda>l. if l_id l = lid then l\<lparr>l_paymentStatus := ''confirmed''\<rparr>
                                         else l) (listings db1)\<rparr>)"
    by (rule updateListingPaymentStatus_text [OF pg_text_confirmed])
  have pays1: "payments db1
      = map (\<lambda>q. if p_id q = i then q\<lparr>p_status := ''confirmed''\<rparr> else q) (payments db)"
    by (simp add: db1_def)
  have lst1: "listings db1 = listings db" by (simp add: db1_def)
  have unl1: "phoneUnlocks db1 = phoneUnlocks db" by (simp add: db1_def)
  have noempty: "\<And>l. l \<in> set (listings db) \<Longrightarrow> l_id l \<noteq> []"
  proof
    fix l assume "l \<in> set (listings db)" and "l_id l = []"
    then have "[] \<in> l_id ` set (listings db)" by (metis imageI)
    with assms(2) show False by simp
  qed
  have shape: "post_api_payments_confirm i db = ((200, PaymentBody ?p), db')
      \<and> ((db' = db1 \<and> (\<forall>l\<in>set (listings db). \<not> ?cascade l))
         \<or> (\<exists>lid. db' = db1\<lparr>listings :=
                    map (\<lambda>l. if l_id l = lid then l\<lparr>l_paymentStatus := ''confirmed''\<rparr> else l)
                      (listings db1)\<rparr>
               \<and> p_type p = ''publish'' \<and> p_listingId p = Some lid))"
  proof (cases "p_listingId p")
    case None
    then have "post_api_payments_confirm i db = ((200, PaymentBody ?p), db1)"
      by (intro confirm_no_listingId [OF upd]) simp
    then show ?thesis using None by (simp add: db'_def)
  next
    case (Some lid)
    show ?thesis
    proof (cases "lid \<noteq> [] \<and> p_type p = ''publish''")
      case True
      let ?db2 = "db1\<lparr>listings :=
          map (\<lambda>l. if l_id l = lid then l\<lparr>l_paymentStatus := ''confirmed''\<rparr> else l)
            (listings db1)\<rparr>"
      have "post_api_payments_confirm i db = ((200, PaymentBody ?p), ?db2)"
        using True Some by (intro confirm_cascade [OF upd _ _ _ cas [of lid]]) simp_all
      then have "db' = ?db2" by (simp add: db'_def)
      then show ?thesis
        using True Some \<open>post_api_payments_confirm i db = ((200, PaymentBody ?p), ?db2)\<close>
        by blast
    next
      case False
      then have "post_api_payments_confirm i db = ((200, PaymentBody ?p), db1)"
        using Some by (intro confirm_no_cascade [OF upd, of lid]) simp_all
      moreover have "\<forall>l\<in>set (listings db). \<not> ?cascade l"
        using False Some noempty by auto
      ultimately show ?thesis by (simp add: db'_def)
    qed
  qed
  then have res: "post_api_payments_confirm i db = ((200, PaymentBody ?p), db')"
    and shape': "(db' = db1 \<and> (\<forall>l\<in>set (listings db). \<not> ?cascade l))
         \<or> (\<exists>lid. db' = db1\<lparr>listings :=
                    map (\<lambda>l. if l_id l = lid then l\<lparr>l_paymentStatus := ''confirmed''\<rparr> else l)
                      (listings db1)\<rparr>
               \<and> p_type p = ''publish'' \<and> p_listingId p = Some lid)"
    by (rule conjunct1, rule conjunct2)
  have pays: "payments db'
      = map (\<lambda>q. if p_id q = i then q\<lparr>p_status := ''confirmed''\<rparr> else q) (payments db)"
    using shape' pays1 by auto
  have unl: "phoneUnlocks db' = phoneUnlocks db"
    using shape' unl1 by auto
  have lst: "listings db'
      = map (\<lambda>l. if ?cascade l then l\<lparr>l_paymentStatus := ''confirmed''\<rparr> else l) (listings db)"
  proof -
    from shape' show ?thesis
    proof
      assume a: "db' = db1 \<and> (\<forall>l\<in>set (listings db). \<not> ?cascade l)"
      then have "map (\<lambda>l. if ?cascade l then l\<lparr>l_paymentStatus := ''confirmed''\<rparr> else l)
          (listings db) = map (\<lambda>l. l) (listings db)"
        by (intro map_cong) auto
      then show ?thesis using a lst1 by simp
    next
      assume "\<exists>lid. db' = db1\<lparr>listings :=
                    map (\<lambda>l. if l_id l = lid then l\<lparr>l_paymentStatus := ''confirmed''\<rparr> else l)
                      (listings db1)\<rparr>
            \<and> p_type p = ''publish'' \<and> p_listingId p = Some lid"
      then obtain lid where b: "db' = db1\<lparr>listings :=
                    map (\<lambda>l. if l_id l = lid then l\<lparr>l_paymentStatus := ''confirmed''\<rparr> else l)
                      (listings db1)\<rparr>"
          "p_type p = ''publish''" "p_listingId p = Some lid" by blast
      have "listings db'
          = map (\<lambda>l. if l_id l = lid then l\<lparr>l_paymentStatus := ''confirmed''\<rparr> else l) (listings db)"
        by (simp add: b(1) lst1)
      also have "\<dots> = map (\<lambda>l. if ?cascade l then l\<lparr>l_paymentStatus := ''confirmed''\<rparr> else l)
          (listings db)"
        using b(2,3) by (intro map_cong) auto
      finally show ?thesis .
    qed
  qed
  note c1 = res
  have c2: "length (payments db') = length (payments db)" by (simp add: pays)
  have c3: "\<forall>k<length (payments db).
          payments db' ! k =
            (if p_id (payments db ! k) = i then (payments db ! k)\<lparr>p_status := ''confirmed''\<rparr>
             else payments db ! k)"
    by (simp add: pays)
  have c5: "length (listings db') = length (listings db)" by (simp add: lst)
  have c6: "\<forall>k<length (listings db).
          listings db' ! k =
            (if ?cascade (listings db ! k)
             then (listings db ! k)\<lparr>l_paymentStatus := ''confirmed''\<rparr>
             else listings db ! k)"
    by (simp add: lst)
  have c7: "p_type p \<noteq> ''publish'' \<or> p_listingId p = None \<longrightarrow> listings db' = listings db"
  proof
    assume "p_type p \<noteq> ''publish'' \<or> p_listingId p = None"
    then have "map (\<lambda>l. if ?cascade l then l\<lparr>l_paymentStatus := ''confirmed''\<rparr> else l)
          (listings db) = map (\<lambda>l. l) (listings db)"
      by (intro map_cong) auto
    then show "listings db' = listings db" by (simp add: lst)
  qed
  show ?thesis
    by (rule exI [of _ db'], intro conjI) (rule c1 c2 c3 unl c5 c6 c7)+
qed

theorem confirm_payment_cascade_witness:
  "getPayment ''p1'' ex_db = Some (ex_payment ''p1'' (Some ''a'') ''publish'' 1500)
   \<and> [] \<notin> set (map l_id (listings ex_db))
   \<and> (\<exists>db'. post_api_payments_confirm ''p1'' ex_db
         = ((200, PaymentBody
                    ((ex_payment ''p1'' (Some ''a'') ''publish'' 1500)\<lparr>p_status := ''confirmed''\<rparr>)),
            db')
       \<and> listings db' ! 0 = (listings ex_db ! 0)\<lparr>l_paymentStatus := ''confirmed''\<rparr>
       \<and> listings db' ! 1 = listings ex_db ! 1)"
proof -
  have h1: "getPayment ''p1'' ex_db = Some (ex_payment ''p1'' (Some ''a'') ''publish'' 1500)"
    by (simp add: getPayment_def select_where_def first_def ex_db_def ex_payment_def)
  have h2: "[] \<notin> set (map l_id (listings ex_db))"
    by (simp add: ex_db_def ex_listing_def)
  from confirm_payment_cascade [OF h1 h2] obtain db' where
    r: "post_api_payments_confirm ''p1'' ex_db
         = ((200, PaymentBody
                    ((ex_payment ''p1'' (Some ''a'') ''publish'' 1500)\<lparr>p_status := ''confirmed''\<rparr>)),
            db')"
    and l: "\<forall>k<length (listings ex_db).
          listings db' ! k =
            (if p_type (ex_payment ''p1'' (Some ''a'') ''publish'' 1500) = ''publish''
                \<and> p_listingId (ex_payment ''p1'' (Some ''a'') ''publish'' 1500)
                    = Some (l_id (listings ex_db ! k))
             then (listings ex_db ! k)\<lparr>l_paymentStatus := ''confirmed''\<rparr>
             else listings ex_db ! k)"
    by blast
  have "listings db' ! 0 = (listings ex_db ! 0)\<lparr>l_paymentStatus := ''confirmed''\<rparr>"
    using l [rule_format, of 0] by (simp add: ex_db_def ex_listing_def ex_payment_def)
  moreover have "listings db' ! 1 = listings ex_db ! 1"
    using l [rule_format, of 1] by (simp add: ex_db_def ex_listing_def ex_payment_def)
  ultimately show ?thesis using h1 h2 r by blast
qed

section \<open>The status of a listing over a run of requests\<close>

lemma only_settles_refl: "only_settles rows rows"
  by (simp add: only_settles_def)

lemma only_settles_append: "only_settles rows (rows @ [l])"
  by (simp add: only_settles_def nth_append)

lemma only_settles_status:
  "s = ''approved'' \<or> s = ''rejected'' \<Longrightarrow>
     only_settles rows (map (\<lambda>l. if c l then l\<lparr>l_status := s\<rparr> else l) rows)"
  by (simp add: only_settles_def)

lemma only_settles_paymentStatus:
  "only_settles rows (map (\<lambda>l. if c l then l\<lparr>l_paymentStatus := s\<rparr> else l) rows)"
  by (simp add: only_settles_def)

lemma settles_create_listing:
  "only_settles (listings db) (listings (snd (create_listing_endpoint g1 g2 uploaded textFields db)))"
  by (auto simp add: create_listing_endpoint_def post_api_listings_def
        only_settles_refl only_settles_append
      split: sum.splits prod.splits dest!: listings_createListing listings_createPayment)

lemma settles_phone_unlock:
  "only_settles (listings db) (listings (snd (post_api_phone_unlock g1 g2 body db)))"
  by (auto simp add: post_api_phone_unlock_def only_settles_refl
      split: sum.splits prod.splits dest!: listings_createPhoneUnlock listings_createPayment)

lemma settles_confirm:
  "only_settles (listings db) (listings (snd (post_api_payments_confirm i db)))"
proof -
  define db1 where "db1 = db\<lparr>payments :=
      map (\<lambda>q. if p_id q = i then q\<lparr>p_status := ''confirmed''\<rparr> else q) (payments db)\<rparr>"
  have lst1: "listings db1 = listings db" by (simp add: db1_def)
  show ?thesis
  proof (cases "getPayment i db")
    case None
    then have "updatePaymentStatus i ''confirmed'' db = Inr (None, db1)"
      using updatePaymentStatus_text [OF pg_text_confirmed, of i db] by (simp add: db1_def)
    then have "snd (post_api_payments_confirm i db) = db1" by (rule confirm_not_found)
    then show ?thesis by (simp add: lst1 only_settles_refl)
  next
    case (Some p)
    let ?p = "p\<lparr>p_status := ''confirmed''\<rparr>"
    have upd: "updatePaymentStatus i ''confirmed'' db = Inr (Some ?p, db1)"
      using updatePaymentStatus_text [OF pg_text_confirmed, of i db] Some
      by (simp add: db1_def)
    show ?thesis
    proof (cases "p_listingId p")
      case None
      then have "post_api_payments_confirm i db = ((200, PaymentBody ?p), db1)"
        by (intro confirm_no_listingId [OF upd]) simp
      then show ?thesis by (simp add: lst1 only_settles_refl)
    next
      case (Some lid)
      show ?thesis
      proof (cases "lid \<noteq> [] \<and> p_type p = ''publish''")
        case True
        let ?db2 = "db1\<lparr>listings :=
            map (\<lambda>l. if l_id l = lid then l\<lparr>l_paymentStatus := ''confirmed''\<rparr> else l)
              (listings db1)\<rparr>"
        have "post_api_payments_confirm i db = ((200, PaymentBody ?p), ?db2)"
          using True Some
          by (intro confirm_cascade
                [OF upd _ _ _ updateListingPaymentStatus_text [OF pg_text_confirmed]])
            simp_all
        then show ?thesis by (simp add: lst1 only_settles_paymentStatus)
      next
        case False
        then have "post_api_payments_confirm i db = ((200, PaymentBody ?p), db1)"
          using Some by (intro confirm_no_cascade [OF upd, of lid]) simp_all
        then show ?thesis by (simp add: lst1 only_settles_refl)
      qed
    qed
  qed
qed

lemma listings_approve:
  "listings (snd (post_api_admin_listings_approve i db))
     = map (\<lambda>l. if l_id l = i then l\<lparr>l_status := ''approved''\<rparr> else l) (listings db)"
  by (cases "getListing i db")
    (simp_all add: post_api_admin_listings_approve_def
      updateListingStatus_text [OF pg_text_approved])

lemma listings_reject:
  "listings (snd (post_api_admin_listings_reject i db))
     = map (\<lambda>l. if l_id l = i then l\<lparr>l_status := ''rejected''\<rparr> else l) (listings db)"
  by (cases "getListing i db")
    (simp_all add: post_api_admin_listings_reject_def
      updateListingStatus_text [OF pg_text_rejected])

lemma settles_approve_all:
  "only_settles (listings db) (listings (snd (post_api_admin_listings_approve_all db)))"
proof -
  have "listings (snd (post_api_admin_listings_approve_all db))
      = listings (snd (approveAllPendingListings db))"
    by (simp add: post_api_admin_listings_approve_all_def split: prod.splits)
  then show ?thesis by (simp add: listings_approveAllPendingListings only_settles_status)
qed

lemma settles_handle: "only_settles (listings db) (listings (snd (handle r db)))"
proof (cases r)
  case (GetListing i)
  then show ?thesis
    by (simp add: get_api_listings_id_def only_settles_refl split: option.splits)
qed (simp_all add: settles_create_listing settles_phone_unlock settles_confirm
       listings_approve listings_reject only_settles_status settles_approve_all
       only_settles_refl get_api_listings_def get_api_admin_listings_pending_def
       get_api_admin_listings_all_def)

lemma run_status:
  assumes "k < length (listings db)"
  shows "k < length (listings (run rs db))
    \<and> l_id (listings (run rs db) ! k) = l_id (listings db ! k)
    \<and> (l_status (listings (run rs db) ! k) = l_status (listings db ! k)
       \<or> l_status (listings (run rs db) ! k) = ''approved''
       \<or> l_status (listings (run rs db) ! k) = ''rejected'')"
  using assms
proof (induction rs arbitrary: db)
  case Nil
  then show ?case by simp
next
  case (Cons r rs)
  from settles_handle [of db r] Cons.prems
  have k: "k < length (listings (snd (handle r db)))"
    and i: "l_id (listings (snd (handle r db)) ! k) = l_id (listings db ! k)"
    and s: "l_status (listings (snd (handle r db)) ! k) = l_status (listings db ! k)
       \<or> l_status (listings (snd (handle r db)) ! k) = ''approved''
       \<or> l_status (listings (snd (handle r db)) ! k) = ''rejected''"
    by (simp_all add: only_settles_def)
  from Cons.IH [OF k] i s show ?case by auto
qed

text \<open>
  Claim C5, as the code has it. Over any sequence of requests a listing row stays in
  the table under its id, and its status is either what it was or one of "approved"
  and "rejected": every status change a route makes sets "approved" or "rejected", so
  a listing that is approved or rejected never returns to pending. The approve route
  sets the status of the listings with the given id to "approved" and the reject route
  sets it to "rejected", whatever the status was, and they leave the listings with
  another id as they are: besides pending to approved and pending to rejected, the
  transitions approved to rejected and rejected to approved exist.
\<close>

theorem status_transitions_of_the_routes:
  assumes "k < length (listings db)"
  shows "k < length (listings (run rs db))
    \<and> l_id (listings (run rs db) ! k) = l_id (listings db ! k)
    \<and> (l_status (listings (run rs db) ! k) = l_status (listings db ! k)
       \<or> l_status (listings (run rs db) ! k) = ''approved''
       \<or> l_status (listings (run rs db) ! k) = ''rejected'')
    \<and> (l_id (listings db ! k) = i \<longrightarrow>
          l_status (listings (snd (handle (PostAdminApprove i) db)) ! k) = ''approved''
        \<and> l_status (listings (snd (handle (PostAdminReject i) db)) ! k) = ''rejected'')
    \<and> (l_id (listings db ! k) \<noteq> i \<longrightarrow>
          listings (snd (handle (PostAdminApprove i) db)) ! k = listings db ! k
        \<and> listings (snd (handle (PostAdminReject i) db)) ! k = listings db ! k)"
proof -
  note run = run_status [OF assms, of rs]
  have a: "listings (snd (handle (PostAdminApprove i) db)) ! k
      = (if l_id (listings db ! k) = i then (listings db ! k)\<lparr>l_status := ''approved''\<rparr>
         else listings db ! k)"
    using assms by (simp add: listings_approve)
  have r: "listings (snd (handle (PostAdminReject i) db)) ! k
      = (if l_id (listings db ! k) = i then (listings db ! k)\<lparr>l_status := ''rejected''\<rparr>
         else listings db ! k)"
    using assms by (simp add: listings_reject)
  show ?thesis using run a r by simp
qed

theorem status_transitions_of_the_routes_witness:
  "(2::nat) < length (listings ex_db)
   \<and> map l_status (listings ex_db) = [''pending'', ''pending'', ''approved'']
   \<and> l_status (listings (snd (handle (PostAdminReject ''c'') ex_db)) ! 2) = ''rejected''
   \<and> l_status (listings (snd (handle (PostAdminApprove ''c'')
                                   (snd (handle (PostAdminReject ''c'') ex_db)))) ! 2)
       = ''approved''"
proof -
  let ?db1 = "snd (handle (PostAdminReject ''c'') ex_db)"
  have h: "(2::nat) < length (listings ex_db)" by (simp add: ex_db_def)
  have s: "map l_status (listings ex_db) = [''pending'', ''pending'', ''approved'']"
    by (simp add: ex_db_def ex_listing_def)
  have i: "l_id (listings ex_db ! 2) = ''c''" by (simp add: ex_db_def ex_listing_def)
  from status_transitions_of_the_routes [OF h, of "[PostAdminReject ''c'']" "''c''"] i
  have h1: "(2::nat) < length (listings ?db1)"
    and i1: "l_id (listings ?db1 ! 2) = ''c''"
    and r: "l_status (listings ?db1 ! 2) = ''rejected''"
    by simp_all
  from status_transitions_of_the_routes [OF h1, of "[]" "''c''"] i1
  have a: "l_status (listings (snd (handle (PostAdminApprove ''c'') ?db1)) ! 2) = ''approved''"
    by simp
  from h s r a show ?thesis by (intro conjI)
qed

text \<open>
  The claim as the specification states it fails: rejecting the approved listing
  \<open>c\<close> of the example store changes its status from "approved" to "rejected".
\<close>

theorem approved_listing_can_be_rejected:
  "map l_status (listings ex_db) = [''pending'', ''pending'', ''approved'']
   \<and> map l_status (listings (snd (handle (PostAdminReject ''c'') ex_db)))
       = [''pending'', ''pending'', ''rejected'']"
  by (simp add: listings_reject ex_db_def ex_listing_def)

section \<open>Updating the status of one listing\<close>

text \<open>
  Claim C9. \<open>updateListingStatus\<close> leaves the payments and the phone unlocks as they
  are and keeps every listing row in its place; a listing with another id is unchanged,
  the listing with the given id is the same row with the new status, and so every field
  other than the status (id, city, commune, neighborhood, rooms, propertyType,
  transactionType, price, deposit, description, phone, images, paymentStatus, featured,
  createdAt) of every listing is what it was.
\<close>

theorem updateListingStatus_frame:
  assumes "updateListingStatus i s db = Inr (r, db')"
  shows "payments db' = payments db \<and> phoneUnlocks db' = phoneUnlocks db
    \<and> length (listings db') = length (listings db)
    \<and> (\<forall>k<length (listings db).
          (l_id (listings db ! k) \<noteq> i \<longrightarrow> listings db' ! k = listings db ! k)
        \<and> (l_id (listings db ! k) = i \<longrightarrow> listings db' ! k = (listings db ! k)\<lparr>l_status := s\<rparr>)
        \<and> l_id (listings db' ! k) = l_id (listings db ! k)
        \<and> l_city (listings db' ! k) = l_city (listings db ! k)
        \<and> l_commune (listings db' ! k) = l_commune (listings db ! k)
        \<and> l_neighborhood (listings db' ! k) = l_neighborhood (listings db ! k)
        \<and> l_rooms (listings db' ! k) = l_rooms (listings db ! k)
        \<and> l_propertyType (listings db' ! k) = l_propertyType (listings db ! k)
        \<and> l_transactionType (listings db' ! k) = l_transactionType (listings db ! k)
        \<and> l_price (listings db' ! k) = l_price (listings db ! k)
        \<and> l_deposit (listings db' ! k) = l_deposit (listings db ! k)
        \<and> l_description (listings db' ! k) = l_description (listings db ! k)
        \<and> l_phone (listings db' ! k) = l_phone (listings db ! k)
        \<and> l_images (listings db' ! k) = l_images (listings db ! k)
        \<and> l_paymentStatus (listings db' ! k) = l_paymentStatus (listings db ! k)
        \<and> l_featured (listings db' ! k) = l_featured (listings db ! k)
        \<and> l_createdAt (listings db' ! k) = l_createdAt (listings db ! k))"
proof -
  from assms have ok: "pg_text s"
    by (auto simp add: updateListingStatus_def split: if_splits)
  from assms updateListingStatus_text [OF ok, of i db]
  have db': "db' = db\<lparr>listings :=
      map (\<lambda>l. if l_id l = i then l\<lparr>l_status := s\<rparr> else l) (listings db)\<rparr>"
    by simp
  show ?thesis by (simp add: db')
qed

theorem updateListingStatus_frame_witness:
  "updateListingStatus ''b'' ''rejected'' ex_db
     = Inr (Some (ex_listing ''b'' ''rejected'' ''confirmed''),
        ex_db\<lparr>listings := [ex_listing ''a'' ''pending'' ''pending'',
                           ex_listing ''b'' ''rejected'' ''confirmed'',
                           ex_listing ''c'' ''approved'' ''confirmed'']\<rparr>)
   \<and> payments (ex_db\<lparr>listings := [ex_listing ''a'' ''pending'' ''pending'',
                           ex_listing ''b'' ''rejected'' ''confirmed'',
                           ex_listing ''c'' ''approved'' ''confirmed'']\<rparr>) = payments ex_db"
proof -
  have h: "updateListingStatus ''b'' ''rejected'' ex_db
     = Inr (Some (ex_listing ''b'' ''rejected'' ''confirmed''),
        ex_db\<lparr>listings := [ex_listing ''a'' ''pending'' ''pending'',
                           ex_listing ''b'' ''rejected'' ''confirmed'',
                           ex_listing ''c'' ''approved'' ''confirmed'']\<rparr>)"
    by (simp add: updateListingStatus_text [OF pg_text_rejected] getListing_def
        select_where_def first_def ex_db_def ex_listing_def)
  from updateListingStatus_frame [OF h] h show ?thesis by blast
qed

text \<open>
  Claim C10, as the code has it. For an id present in the store and any string \<open>s\<close>
  that a text column can hold (well-formed text without the character U+0000), in the
  enumerations of the specification or not, \<open>updateListingStatus\<close> and
  \<open>updateListingPaymentStatus\<close> succeed and return a listing with that id whose
  status, respectively paymentStatus, is \<open>s\<close>, and that listing is in the store
  afterwards: the string is not checked against any enumeration.
\<close>

theorem update_status_any_text:
  assumes "i \<in> set (map l_id (listings db))" and "pg_text s"
  shows "(\<exists>l db'. updateListingStatus i s db = Inr (Some l, db') \<and> l_id l = i
              \<and> l_status l = s \<and> l \<in> set (listings db'))
       \<and> (\<exists>l db'. updateListingPaymentStatus i s db = Inr (Some l, db') \<and> l_id l = i
              \<and> l_paymentStatus l = s \<and> l \<in> set (listings db'))"
proof -
  from getListing_present [OF assms(1)] obtain l1
    where l1: "getListing i db = Some l1" and mem: "l1 \<in> set (listings db)" "l_id l1 = i"
    by blast
  let ?a = "l1\<lparr>l_status := s\<rparr>"
  let ?dba = "db\<lparr>listings := map (\<lambda>l. if l_id l = i then l\<lparr>l_status := s\<rparr> else l)
      (listings db)\<rparr>"
  let ?b = "l1\<lparr>l_paymentStatus := s\<rparr>"
  let ?dbb = "db\<lparr>listings := map (\<lambda>l. if l_id l = i then l\<lparr>l_paymentStatus := s\<rparr> else l)
      (listings db)\<rparr>"
  have a: "updateListingStatus i s db = Inr (Some ?a, ?dba)"
    by (simp add: updateListingStatus_text [OF assms(2)] l1)
  have a': "?a \<in> set (listings ?dba)" using mem by force
  have b: "updateListingPaymentStatus i s db = Inr (Some ?b, ?dbb)"
    by (simp add: updateListingPaymentStatus_text [OF assms(2)] l1)
  have b': "?b \<in> set (listings ?dbb)" using mem by force
  have pa: "l_id ?a = i" "l_status ?a = s" using mem by simp_all
  have pb: "l_id ?b = i" "l_paymentStatus ?b = s" using mem by simp_all
  have A: "\<exists>l db'. updateListingStatus i s db = Inr (Some l, db') \<and> l_id l = i
              \<and> l_status l = s \<and> l \<in> set (listings db')"
    by (rule exI [of _ ?a], rule exI [of _ ?dba], intro conjI) (rule a a' pa)+
  have B: "\<exists>l db'. updateListingPaymentStatus i s db = Inr (Some l, db') \<and> l_id l = i
              \<and> l_paymentStatus l = s \<and> l \<in> set (listings db')"
    by (rule exI [of _ ?b], rule exI [of _ ?dbb], intro conjI) (rule b b' pb)+
  from A B show ?thesis by (rule conjI)
qed

theorem update_status_any_text_witness:
  "''a'' \<in> set (map l_id (listings ex_db)) \<and> pg_text ''banana''
   \<and> (\<exists>l db'. updateListingStatus ''a'' ''banana'' ex_db = Inr (Some l, db') \<and> l_id l = ''a''
          \<and> l_status l = ''banana'' \<and> l \<in> set (listings db'))
   \<and> (\<exists>l db'. updateListingPaymentStatus ''a'' ''banana'' ex_db = Inr (Some l, db')
          \<and> l_id l = ''a'' \<and> l_paymentStatus l = ''banana'' \<and> l \<in> set (listings db'))"
proof -
  have h: "''a'' \<in> set (map l_id (listings ex_db))"
    by (simp add: ex_db_def ex_listing_def)
  have t: "pg_text ''banana''" by (simp add: pg_text_def)
  from update_status_any_text [OF h t] h t show ?thesis by (intro conjI) blast+
qed

text \<open>
  The claim as the specification states it fails: a string with the character U+0000
  is a string, and with it both updates throw in place of returning a listing.
\<close>

theorem update_with_nul_throws:
  "''a'' \<in> set (map l_id (listings ex_db))
   \<and> updateListingStatus ''a'' [CHR 0x00] ex_db = Inl InvalidByteSequence
   \<and> updateListingPaymentStatus ''a'' [CHR 0x00] ex_db = Inl InvalidByteSequence"
  by (simp add: updateListingStatus_def updateListingPaymentStatus_def pg_text_def
      ex_db_def ex_listing_def)

section \<open>Validation of a listing payload\<close>

lemmas schema_eval =
  insertListingSchema_def insertListingSchema_issues_def insertListingSchema_output_def
  getField_def z_string_def z_number_min_def z_number_nullable_optional_def
  z_array_string_min_def issues_at_def issues_of_def

lemma z_string_issue: "\<forall>s. v \<noteq> JStr s \<Longrightarrow> issues_at seg (z_string v) \<noteq> []"
  by (cases v) (simp_all add: z_string_def issues_at_def issues_of_def)

lemma z_number_min_issue:
  "\<forall>n. v = JNum n \<longrightarrow> n < m \<Longrightarrow> issues_at seg (z_number_min m v) \<noteq> []"
  by (cases v) (simp_all add: z_number_min_def issues_at_def issues_of_def)

lemma z_array_empty_issue: "issues_at seg (z_array_string_min 1 (JArr [])) \<noteq> []"
  by (simp add: z_array_string_min_def issues_at_def issues_of_def)

lemma z_string_ok: "issues_at seg (z_string (JStr s)) = []"
  by (simp add: z_string_def issues_at_def issues_of_def)

lemma z_number_min_ok: "m \<le> n \<Longrightarrow> issues_at seg (z_number_min m (JNum n)) = []"
  by (simp add: z_number_min_def issues_at_def issues_of_def)

lemma z_number_nullable_optional_ok:
  "v = JUndefined \<or> v = JNull \<or> (\<exists>n. v = JNum n) \<Longrightarrow>
     issues_at seg (z_number_nullable_optional v) = []"
  by (auto simp add: z_number_nullable_optional_def issues_at_def issues_of_def)

lemma no_element_issues:
  "concat (map (\<lambda>(i, x). issues_at (Index i) (z_string x)) (enumerate n (map JStr xs))) = []"
  by (induction xs arbitrary: n) (simp_all add: issues_at_def issues_of_def z_string_def)

lemma z_array_string_min_strings:
  "length xs \<ge> m \<Longrightarrow> z_array_string_min m (JArr (map JStr xs)) = Inr xs"
proof -
  assume "length xs \<ge> m"
  moreover have "map (\<lambda>x. projr (z_string x)) (map JStr xs) = xs"
    by (induction xs) (simp_all add: z_string_def)
  ultimately show ?thesis
    by (simp add: z_array_string_min_def no_element_issues not_less)
qed

lemma z_array_string_min_ok:
  "xs \<noteq> [] \<Longrightarrow> issues_at seg (z_array_string_min 1 (JArr (map JStr xs))) = []"
proof -
  assume "xs \<noteq> []"
  then have "length xs \<ge> 1" by (simp add: Suc_le_eq)
  then have "z_array_string_min 1 (JArr (map JStr xs)) = Inr xs"
    by (rule z_array_string_min_strings)
  then show ?thesis by (simp only: issues_at_def issues_of_def sum.case list.map)
qed

lemma insertListingSchema_fails:
  "insertListingSchema_issues kvs \<noteq> [] \<Longrightarrow>
     \<exists>issues. insertListingSchema (JObj kvs) = Inl issues \<and> issues \<noteq> []"
  by (simp add: insertListingSchema_def)

lemma insertListingSchema_passes:
  "insertListingSchema_issues kvs = [] \<Longrightarrow> \<exists>v. insertListingSchema (JObj kvs) = Inr v"
  by (simp add: insertListingSchema_def)

lemma insertListingSchema_accepts:
  assumes strings: "\<forall>k\<in>set requiredText. \<exists>s. getField kvs k = JStr s"
    and rooms: "\<exists>n\<ge>1. getField kvs ''rooms'' = JNum n"
    and price: "\<exists>n\<ge>1. getField kvs ''price'' = JNum n"
    and deposit: "getField kvs ''deposit'' = JUndefined \<or> getField kvs ''deposit'' = JNull
        \<or> (\<exists>n. getField kvs ''deposit'' = JNum n \<and> int4 n)"
    and images: "\<exists>xs. xs \<noteq> [] \<and> getField kvs ''images'' = JArr (map JStr xs)"
  shows "\<exists>v. insertListingSchema (JObj kvs) = Inr v"
proof -
  from strings have
    "\<exists>s. getField kvs ''city'' = JStr s" "\<exists>s. getField kvs ''commune'' = JStr s"
    "\<exists>s. getField kvs ''neighborhood'' = JStr s" "\<exists>s. getField kvs ''propertyType'' = JStr s"
    "\<exists>s. getField kvs ''transactionType'' = JStr s"
    "\<exists>s. getField kvs ''description'' = JStr s" "\<exists>s. getField kvs ''phone'' = JStr s"
    by (simp_all add: requiredText_def)
  then have s: "issues_at (Key ''city'') (z_string (getField kvs ''city'')) = []"
    "issues_at (Key ''commune'') (z_string (getField kvs ''commune'')) = []"
    "issues_at (Key ''neighborhood'') (z_string (getField kvs ''neighborhood'')) = []"
    "issues_at (Key ''propertyType'') (z_string (getField kvs ''propertyType'')) = []"
    "issues_at (Key ''transactionType'') (z_string (getField kvs ''transactionType'')) = []"
    "issues_at (Key ''description'') (z_string (getField kvs ''description'')) = []"
    "issues_at (Key ''phone'') (z_string (getField kvs ''phone'')) = []"
    by (auto simp add: z_string_ok)
  from rooms have r: "issues_at (Key ''rooms'') (z_number_min 1 (getField kvs ''rooms'')) = []"
    by (auto simp add: z_number_min_ok)
  from price have p: "issues_at (Key ''price'') (z_number_min 1 (getField kvs ''price'')) = []"
    by (auto simp add: z_number_min_ok)
  from deposit have d:
    "issues_at (Key ''deposit'') (z_number_nullable_optional (getField kvs ''deposit'')) = []"
    by (intro z_number_nullable_optional_ok) blast
  from images obtain xs where xs: "xs \<noteq> []" "getField kvs ''images'' = JArr (map JStr xs)"
    by blast
  have i: "issues_at (Key ''images'') (z_array_string_min 1 (getField kvs ''images'')) = []"
    unfolding xs(2) using xs(1) by (rule z_array_string_min_ok)
  have "insertListingSchema_issues kvs = []"
    by (simp only: insertListingSchema_issues_def s r p d i append_Nil)
  then show ?thesis by (rule insertListingSchema_passes)
qed

lemma insertListingSchema_rejects:
  assumes "(\<exists>k\<in>set requiredText. \<forall>s. getField kvs k \<noteq> JStr s)
    \<or> (\<forall>n. getField kvs ''rooms'' = JNum n \<longrightarrow> n < 1)
    \<or> (\<forall>n. getField kvs ''price'' = JNum n \<longrightarrow> n < 1)
    \<or> getField kvs ''images'' = JArr []"
  shows "\<exists>issues. insertListingSchema (JObj kvs) = Inl issues \<and> issues \<noteq> []"
proof -
  from assms consider
      (missing) k where "k \<in> set requiredText" "\<forall>s. getField kvs k \<noteq> JStr s"
    | (rooms) "\<forall>n. getField kvs ''rooms'' = JNum n \<longrightarrow> n < 1"
    | (price) "\<forall>n. getField kvs ''price'' = JNum n \<longrightarrow> n < 1"
    | (images) "getField kvs ''images'' = JArr []"
    by blast
  then have "insertListingSchema_issues kvs \<noteq> []"
  proof cases
    case missing
    from missing(2) have "issues_at (Key k) (z_string (getField kvs k)) \<noteq> []"
      by (rule z_string_issue)
    moreover from missing(1) have "k = ''city'' \<or> k = ''commune'' \<or> k = ''neighborhood''
        \<or> k = ''propertyType'' \<or> k = ''transactionType'' \<or> k = ''description'' \<or> k = ''phone''"
      by (simp add: requiredText_def)
    ultimately show ?thesis unfolding insertListingSchema_issues_def append_is_Nil_conv by blast
  next
    case rooms
    then have "issues_at (Key ''rooms'') (z_number_min 1 (getField kvs ''rooms'')) \<noteq> []"
      by (rule z_number_min_issue)
    then show ?thesis unfolding insertListingSchema_issues_def append_is_Nil_conv by blast
  next
    case price
    then have "issues_at (Key ''price'') (z_number_min 1 (getField kvs ''price'')) \<noteq> []"
      by (rule z_number_min_issue)
    then show ?thesis unfolding insertListingSchema_issues_def append_is_Nil_conv by blast
  next
    case images
    have "issues_at (Key ''images'') (z_array_string_min 1 (getField kvs ''images'')) \<noteq> []"
      unfolding images by (rule z_array_empty_issue)
    then show ?thesis unfolding insertListingSchema_issues_def append_is_Nil_conv by blast
  qed
  then show ?thesis by (rule insertListingSchema_fails)
qed

text \<open>
  Claim C4, as the code has it. Validation of a listing payload fails, with a
  non-empty list of issues, whenever one of city, commune, neighborhood, propertyType,
  transactionType, description, phone is not a string (it is missing, for one), or
  rooms is not a number that is at least 1, or price is not a number that is at least
  1, or the images sequence is empty. And validation accepts every payload in which
  these seven fields are strings, whatever strings and so the empty string too, rooms
  and price are numbers that are at least 1, deposit is absent, null or an integer in
  the range of its column, and images is a non-empty sequence of strings: an empty
  string in any of the seven text fields does not make validation fail.
\<close>

theorem insertListingSchema_outcome:
  "((\<exists>k\<in>set requiredText. \<forall>s. getField kvs k \<noteq> JStr s)
      \<or> (\<forall>n. getField kvs ''rooms'' = JNum n \<longrightarrow> n < 1)
      \<or> (\<forall>n. getField kvs ''price'' = JNum n \<longrightarrow> n < 1)
      \<or> getField kvs ''images'' = JArr []
     \<longrightarrow> (\<exists>issues. insertListingSchema (JObj kvs) = Inl issues \<and> issues \<noteq> []))
   \<and> ((\<forall>k\<in>set requiredText. \<exists>s. getField kvs k = JStr s)
      \<and> (\<exists>n\<ge>1. getField kvs ''rooms'' = JNum n)
      \<and> (\<exists>n\<ge>1. getField kvs ''price'' = JNum n)
      \<and> (getField kvs ''deposit'' = JUndefined \<or> getField kvs ''deposit'' = JNull
          \<or> (\<exists>n. getField kvs ''deposit'' = JNum n \<and> int4 n))
      \<and> (\<exists>xs. xs \<noteq> [] \<and> getField kvs ''images'' = JArr (map JStr xs))
     \<longrightarrow> (\<exists>v. insertListingSchema (JObj kvs) = Inr v))"
  using insertListingSchema_rejects [of kvs] insertListingSchema_accepts [of kvs]
  by blast

theorem insertListingSchema_outcome_witness:
  "(\<forall>s. getField (tl ex_payload) ''city'' \<noteq> JStr s)
   \<and> (\<exists>issues. insertListingSchema (JObj (tl ex_payload)) = Inl issues \<and> issues \<noteq> [])
   \<and> getField ((''rooms'', JNum 0) # ex_payload) ''rooms'' = JNum 0
   \<and> (\<exists>issues. insertListingSchema (JObj ((''rooms'', JNum 0) # ex_payload)) = Inl issues
          \<and> issues \<noteq> [])
   \<and> getField ((''city'', JStr '''') # ex_payload) ''city'' = JStr ''''
   \<and> (\<exists>v. insertListingSchema (JObj ((''city'', JStr '''') # ex_payload)) = Inr v)"
proof -
  have h1: "\<forall>s. getField (tl ex_payload) ''city'' \<noteq> JStr s"
    by (simp add: getField_def ex_payload_def)
  have c: "''city'' \<in> set requiredText" by (simp add: requiredText_def)
  have h2: "getField ((''rooms'', JNum 0) # ex_payload) ''rooms'' = JNum 0"
    by (simp add: getField_def)
  have h3: "getField ((''city'', JStr '''') # ex_payload) ''city'' = JStr ''''"
    by (simp add: getField_def)
  from h1 c have "\<exists>k\<in>set requiredText. \<forall>s. getField (tl ex_payload) k \<noteq> JStr s" by blast
  with insertListingSchema_outcome [of "tl ex_payload"]
  have r1: "\<exists>issues. insertListingSchema (JObj (tl ex_payload)) = Inl issues \<and> issues \<noteq> []"
    by blast
  from h2 have "\<forall>n. getField ((''rooms'', JNum 0) # ex_payload) ''rooms'' = JNum n \<longrightarrow> n < 1"
    by simp
  with insertListingSchema_outcome [of "(''rooms'', JNum 0) # ex_payload"]
  have r2: "\<exists>issues. insertListingSchema (JObj ((''rooms'', JNum 0) # ex_payload)) = Inl issues
      \<and> issues \<noteq> []"
    by blast
  let ?kvs = "(''city'', JStr '''') # ex_payload"
  have a1: "\<forall>k\<in>set requiredText. \<exists>s. getField ?kvs k = JStr s"
    by (simp add: requiredText_def getField_def ex_payload_def)
  have a2: "\<exists>n\<ge>1. getField ?kvs ''rooms'' = JNum n"
    by (simp add: getField_def ex_payload_def)
  have a3: "\<exists>n\<ge>1. getField ?kvs ''price'' = JNum n"
    by (simp add: getField_def ex_payload_def)
  have a4: "getField ?kvs ''deposit'' = JUndefined"
    by (simp add: getField_def ex_payload_def)
  have "getField ?kvs ''images'' = JArr (map JStr [''/a.jpg''])"
    by (simp add: getField_def ex_payload_def)
  then have a5: "\<exists>xs. xs \<noteq> [] \<and> getField ?kvs ''images'' = JArr (map JStr xs)"
    by (intro exI [of _ "[''/a.jpg'']"]) simp
  from insertListingSchema_outcome [of ?kvs] a1 a2 a3 a4 a5
  have r3: "\<exists>v. insertListingSchema (JObj ?kvs) = Inr v"
    by blast
  from h1 r1 h2 r2 h3 r3 show ?thesis by (intro conjI)
qed

text \<open>
  The claim as the specification states it fails: a payload in which all seven text
  fields are the empty string passes validation.
\<close>

theorem empty_text_fields_are_accepted:
  "insertListingSchema
     (JObj [(''city'', JStr ''''), (''commune'', JStr ''''), (''neighborhood'', JStr ''''),
            (''rooms'', JNum 3), (''propertyType'', JStr ''''),
            (''transactionType'', JStr ''''), (''price'', JNum 50000),
            (''description'', JStr ''''), (''phone'', JStr ''''),
            (''images'', JArr [JStr ''/a.jpg''])])
   = Inr \<lparr> il_city = '''', il_commune = '''', il_neighborhood = '''', il_rooms = 3,
           il_propertyType = '''', il_transactionType = '''', il_price = 50000,
           il_deposit = None, il_description = '''', il_phone = '''',
           il_images = [''/a.jpg''] \<rparr>"
  by (simp add: schema_eval)

lemma getField_filter:
  "k \<notin> set ks \<Longrightarrow> getField (filter (\<lambda>(k', v). k' \<notin> set ks) kvs) k = getField kvs k"
  by (induction kvs) (auto simp add: getField_def)

text \<open>
  Claim C6, as the code has it. The server-assigned fields id, status, paymentStatus,
  featured and createdAt of a listing payload are ignored: validation gives the payload
  the result it gives the same payload without them, so they make no payload fail, and
  the validated data has no place for them.
\<close>

theorem insertListingSchema_strips:
  "insertListingSchema (JObj kvs)
     = insertListingSchema (JObj (filter (\<lambda>(k, v). k \<notin> set serverAssigned) kvs))"
proof -
  let ?kvs = "filter (\<lambda>(k, v). k \<notin> set serverAssigned) kvs"
  have "\<And>k. k \<notin> set serverAssigned \<Longrightarrow> getField ?kvs k = getField kvs k"
    by (rule getField_filter)
  then have eqs: "getField ?kvs ''city'' = getField kvs ''city''"
    "getField ?kvs ''commune'' = getField kvs ''commune''"
    "getField ?kvs ''neighborhood'' = getField kvs ''neighborhood''"
    "getField ?kvs ''rooms'' = getField kvs ''rooms''"
    "getField ?kvs ''propertyType'' = getField kvs ''propertyType''"
    "getField ?kvs ''transactionType'' = getField kvs ''transactionType''"
    "getField ?kvs ''price'' = getField kvs ''price''"
    "getField ?kvs ''deposit'' = getField kvs ''deposit''"
    "getField ?kvs ''description'' = getField kvs ''description''"
    "getField ?kvs ''phone'' = getField kvs ''phone''"
    "getField ?kvs ''images'' = getField kvs ''images''"
    by (simp_all add: serverAssigned_def)
  have "insertListingSchema_issues ?kvs = insertListingSchema_issues kvs"
    unfolding insertListingSchema_issues_def eqs ..
  moreover have "insertListingSchema_output ?kvs = insertListingSchema_output kvs"
    unfolding insertListingSchema_output_def eqs ..
  ultimately show ?thesis by (simp only: insertListingSchema_def jsval.case)
qed

theorem insertListingSchema_strips_witness:
  "insertListingSchema (JObj ((''status'', JStr ''approved'') # ex_payload))
     = insertListingSchema (JObj ex_payload)"
  using insertListingSchema_strips [of "(''status'', JStr ''approved'') # ex_payload"]
  by (simp add: serverAssigned_def ex_payload_def)

text \<open>
  The claim as the specification states it fails: the payload of the example with
  all five server-assigned fields supplied passes validation.
\<close>

theorem server_assigned_fields_are_accepted:
  "insertListingSchema
     (JObj ([(''id'', JStr ''x''), (''status'', JStr ''approved''),
             (''paymentStatus'', JStr ''confirmed''), (''featured'', JBool True),
             (''createdAt'', JNum 0)] @ ex_payload))
   = Inr (ex_insert ''Kinshasa'')"
  by (simp add: schema_eval ex_payload_def ex_insert_def)

section \<open>Creating a listing\<close>







section \<open>Requesting a phone unlock\<close>

text \<open>
  Claim C8. For a phone-unlock request that passes validation and names a listing of
  the store (the store generating fresh ids), the endpoint answers 200 with the
  PhoneUnlock it created for that listing and the payment it created after it, and
  these two rows are what it adds to the store: the payment has type "unlock", amount
  2500 and no listingId.
\<close>

theorem phone_unlock_creates:
  assumes valid: "insertPhoneUnlockSchema body = Inr v"
    and exists: "iu_listingId v \<in> set (map l_id (listings db))"
    and fresh: "gen_random_uuid g1 \<notin> set (map u_id (phoneUnlocks db))"
      "gen_random_uuid g2 \<notin> set (map p_id (payments db))"
  shows "\<exists>unlock payment.
      post_api_phone_unlock g1 g2 body db
        = ((200, UnlockAndPayment unlock payment),
           db\<lparr>phoneUnlocks := phoneUnlocks db @ [unlock], payments := payments db @ [payment]\<rparr>)
      \<and> createPhoneUnlock g1 v db = Inr (unlock, db\<lparr>phoneUnlocks := phoneUnlocks db @ [unlock]\<rparr>)
      \<and> u_id unlock = gen_random_uuid g1
      \<and> u_listingId unlock = iu_listingId v
      \<and> u_paymentStatus unlock = ''pending''
      \<and> p_id payment = gen_random_uuid g2
      \<and> p_type payment = ''unlock''
      \<and> p_amount payment = 2500
      \<and> p_listingId payment = None
      \<and> p_status payment = ''pending''"
proof -
  define unlock where "unlock = \<lparr> u_id = gen_random_uuid g1, u_listingId = iu_listingId v,
      u_paymentStatus = ''pending'', u_createdAt = now g1 \<rparr>"
  define db1 where "db1 = db\<lparr>phoneUnlocks := phoneUnlocks db @ [unlock]\<rparr>"
  define payment where "payment = \<lparr> p_id = gen_random_uuid g2, p_listingId = None,
      p_type = ''unlock'', p_amount = 2500, p_status = ''pending'', p_createdAt = now g2 \<rparr>"
  have cu: "createPhoneUnlock g1 v db = Inr (unlock, db1)"
    using exists fresh(1) by (simp add: createPhoneUnlock_def unlock_def db1_def Let_def)
  have cp: "createPayment g2 \<lparr> ip_listingId = None, ip_type = ''unlock'', ip_amount = 2500 \<rparr> db1
      = Inr (payment, db1\<lparr>payments := payments db1 @ [payment]\<rparr>)"
    using fresh(2) by (simp add: createPayment_def payment_def db1_def int4_def Let_def)
  have res: "post_api_phone_unlock g1 g2 body db
        = ((200, UnlockAndPayment unlock payment),
           db\<lparr>phoneUnlocks := phoneUnlocks db @ [unlock], payments := payments db @ [payment]\<rparr>)"
    by (simp add: post_api_phone_unlock_def valid cu cp) (simp add: db1_def)
  have cu': "createPhoneUnlock g1 v db = Inr (unlock, db\<lparr>phoneUnlocks := phoneUnlocks db @ [unlock]\<rparr>)"
    using cu by (simp add: db1_def)
  have props: "u_id unlock = gen_random_uuid g1" "u_listingId unlock = iu_listingId v"
      "u_paymentStatus unlock = ''pending''" "p_id payment = gen_random_uuid g2"
      "p_type payment = ''unlock''" "p_amount payment = 2500" "p_listingId payment = None"
      "p_status payment = ''pending''"
    by (simp_all add: unlock_def payment_def)
  show ?thesis
    by (rule exI [of _ unlock], rule exI [of _ payment], intro conjI) (rule res cu' props)+
qed

theorem phone_unlock_creates_witness:
  "insertPhoneUnlockSchema (JObj [(''listingId'', JStr ''a'')]) = Inr \<lparr> iu_listingId = ''a'' \<rparr>
   \<and> (\<exists>unlock payment.
         post_api_phone_unlock (ex_gen ''u1'') (ex_gen ''p3'') (JObj [(''listingId'', JStr ''a'')]) ex_db
           = ((200, UnlockAndPayment unlock payment),
              ex_db\<lparr>phoneUnlocks := [unlock], payments := payments ex_db @ [payment]\<rparr>)
         \<and> u_listingId unlock = ''a'' \<and> p_type payment = ''unlock''
         \<and> p_amount payment = 2500 \<and> p_listingId payment = None)"
proof -
  have valid: "insertPhoneUnlockSchema (JObj [(''listingId'', JStr ''a'')])
      = Inr \<lparr> iu_listingId = ''a'' \<rparr>"
    by (simp add: insertPhoneUnlockSchema_def getField_def z_string_def issues_at_def
        issues_of_def)
  have exists: "iu_listingId \<lparr> iu_listingId = ''a'' \<rparr> \<in> set (map l_id (listings ex_db))"
    by (simp add: ex_db_def ex_listing_def)
  have fresh: "gen_random_uuid (ex_gen ''u1'') \<notin> set (map u_id (phoneUnlocks ex_db))"
    "gen_random_uuid (ex_gen ''p3'') \<notin> set (map p_id (payments ex_db))"
    by (simp_all add: ex_gen_def ex_db_def ex_payment_def)
  have e: "phoneUnlocks ex_db = []" by (simp add: ex_db_def)
  from phone_unlock_creates [OF valid exists fresh] valid
  show ?thesis by (auto simp add: e)
qed

end
